theory Spec2Isabelle
  imports
    Main
    "HOL-Library.Word"
    "HOL-Library.Multiset"
    "HOL-Library.Char_ord"
    "HOL-Library.List_Lexorder"
begin

section \<open>The metric catalog\<close>

text \<open>
  A descriptor as \<^verbatim>\<open>prometheus.NewDesc\<close> builds it: the fully qualified name, the help
  text and the names of the variable labels. Constant labels are \<^verbatim>\<open>nil\<close> throughout
  the exporter and are left out.
\<close>

record Desc =
  fqName :: string
  help_text :: string
  variableLabels :: "string list"

definition namespace :: string where
  "namespace = ''nginx''"

definition nginxLabelNames :: "string list" where
  "nginxLabelNames = [''channel'']"

text \<open>\<^verbatim>\<open>strings.Join\<close>.\<close>

fun strings_Join :: "string list \<Rightarrow> string \<Rightarrow> string" where
  "strings_Join [] sep = []"
| "strings_Join [x] sep = x"
| "strings_Join (x # y # ys) sep = x @ sep @ strings_Join (y # ys) sep"

text \<open>
  \<^verbatim>\<open>prometheus.BuildFQName\<close>: the non-empty parts joined by an underscore, and the empty
  name when the metric name is empty.
\<close>

definition BuildFQName :: "string \<Rightarrow> string \<Rightarrow> string \<Rightarrow> string" where
  "BuildFQName ns subsystem name =
     (if name = [] then []
      else if ns \<noteq> [] \<and> subsystem \<noteq> [] then strings_Join [ns, subsystem, name] ''_''
      else if ns \<noteq> [] then ns @ ''_'' @ name
      else if subsystem \<noteq> [] then subsystem @ ''_'' @ name
      else name)"

definition newPushStreamMetrics :: "string \<Rightarrow> string \<Rightarrow> Desc" where
  "newPushStreamMetrics metricName docString =
     \<lparr>fqName = BuildFQName namespace ''push_stream'' metricName,
      help_text = docString,
      variableLabels = nginxLabelNames\<rparr>"

text \<open>
  The type \<^verbatim>\<open>metrics\<close> is a Go map from key to descriptor. It is an association list
  here: the order of the list stands for the order in which \<^verbatim>\<open>range\<close> visits the
  map, which Go leaves open, and \<open>map_of\<close> is the lookup.
\<close>

type_synonym metrics = "(string \<times> Desc) list"

definition pushStreamMetrics :: metrics where
  "pushStreamMetrics =
     [(''channels'',
         newPushStreamMetrics ''channels''
           ''Current number of existing channels on this server.''),
      (''subscribers'',
         newPushStreamMetrics ''subscribers''
           ''Current number of connected subscribers on channels on this server.''),
      (''published_messages'',
         newPushStreamMetrics ''published_messages''
           ''Current number of existing channels on this server.''),
      (''stored_messages'',
         newPushStreamMetrics ''stored_messages''
           ''Current number of existing channels on this server.''),
      (''subscribers_total'',
         newPushStreamMetrics ''subscribers_total''
           ''Total current number of connected subscribers on this server.'')]"

definition nginxUp :: Desc where
  "nginxUp =
     \<lparr>fqName = BuildFQName namespace [] ''up'',
      help_text = ''Was the last scrape of nginx successful.'',
      variableLabels = []\<rparr>"

text \<open>
  \<^verbatim>\<open>metrics.String\<close>: the keys, sorted by \<^verbatim>\<open>sort.Strings\<close> (bytewise lexicographic
  order, which is the order of \<open>string\<close> here) and joined by commas.
\<close>

definition metrics_String :: "metrics \<Rightarrow> string" where
  "metrics_String m = strings_Join (sort (map fst m)) '',''"

text \<open>The default of the flag \<^verbatim>\<open>nginx.metric-fields\<close> in \<^verbatim>\<open>main\<close>.\<close>

definition nginxMetricFields_default :: string where
  "nginxMetricFields_default = metrics_String pushStreamMetrics"

section \<open>The metric filter\<close>

text \<open>
  \<^verbatim>\<open>strings.Split\<close> for a separator of one byte: the pieces between the occurrences of
  the separator, so a string with \<open>n\<close> separators has \<open>n + 1\<close> pieces, some of them
  possibly empty.
\<close>

fun strings_Split :: "string \<Rightarrow> char \<Rightarrow> string list" where
  "strings_Split [] sep = [[]]"
| "strings_Split (c # cs) sep =
     (if c = sep then [] # strings_Split cs sep
      else (case strings_Split cs sep of
              [] \<Rightarrow> [[c]]
            | t # ts \<Rightarrow> (c # t) # ts))"

text \<open>
  \<^verbatim>\<open>filterMetrics\<close>: the empty filter gives the empty map; otherwise the pieces of the
  filter are collected in the set \<^verbatim>\<open>selected\<close> and every catalog entry whose key is in
  it is copied.
\<close>

definition filterMetrics :: "string \<Rightarrow> metrics" where
  "filterMetrics filter_str =
     (if length filter_str = 0 then []
      else
        let selected = set (strings_Split filter_str (CHR '',''))
        in [(field, metric) \<leftarrow> pushStreamMetrics. field \<in> selected])"

section \<open>The decoded record\<close>

text \<open>
  Package \<^verbatim>\<open>pushstream\<close> exists in two versions that differ only in the Go type of the
  count fields: \<^verbatim>\<open>int64\<close> in one, \<^verbatim>\<open>string\<close> in the other. A count field is a
  \<open>Value\<close> that carries its Go type, so that the reflective walk of \<^verbatim>\<open>scrape\<close>,
  which switches on that type, is one function over both versions.
\<close>

datatype schema = NumberSchema | StringSchema

datatype Value = I64 "64 word" | Str string

record Channel =
  Channel :: string
  PublishedMessages :: Value
  StoredMessages :: Value
  Subscribers :: Value

text \<open>
  \<^verbatim>\<open>Infos\<close> is a slice of pointers: an element is \<open>None\<close> for the \<^verbatim>\<open>nil\<close> pointer.
\<close>

record PushStream =
  Channels :: Value
  Infos :: "Channel option list"

definition zeroValue :: "schema \<Rightarrow> Value" where
  "zeroValue sch = (case sch of NumberSchema \<Rightarrow> I64 0 | StringSchema \<Rightarrow> Str [])"

definition zeroChannel :: "schema \<Rightarrow> Channel" where
  "zeroChannel sch =
     \<lparr>Channel = [], PublishedMessages = zeroValue sch,
      StoredMessages = zeroValue sch, Subscribers = zeroValue sch\<rparr>"

definition NewPushStream :: "schema \<Rightarrow> PushStream" where
  "NewPushStream sch = \<lparr>Channels = zeroValue sch, Infos = []\<rparr>"

text \<open>
  What \<^verbatim>\<open>reflect\<close> shows of the two structs: the fields in declaration order, each with
  its \<^verbatim>\<open>json\<close> tag.
\<close>

datatype Field = Scalar Value | ChannelSlice "Channel option list"

definition PushStream_fields :: "PushStream \<Rightarrow> (string \<times> Field) list" where
  "PushStream_fields ps =
     [(''channels'', Scalar (Channels ps)), (''infos'', ChannelSlice (Infos ps))]"

definition Channel_fields :: "Channel \<Rightarrow> (string \<times> Value) list" where
  "Channel_fields c =
     [(''channel'', Str (Channel c)),
      (''published_messages'', PublishedMessages c),
      (''stored_messages'', StoredMessages c),
      (''subscribers'', Subscribers c)]"

section \<open>The extraction engine\<close>

text \<open>
  \<^verbatim>\<open>strconv.Atoi\<close> on a platform whose \<^verbatim>\<open>int\<close> has 64 bits: an optional sign, then
  one or more decimal digits and nothing else; a value outside the range of \<^verbatim>\<open>int\<close> is
  an error.
\<close>

definition is_digit :: "char \<Rightarrow> bool" where
  "is_digit c = (CHR ''0'' \<le> c \<and> c \<le> CHR ''9'')"

definition digits_value :: "string \<Rightarrow> int" where
  "digits_value ds = foldl (\<lambda>n ch. n * 10 + (of_char ch - 48)) 0 ds"

definition Atoi :: "string \<Rightarrow> int option" where
  "Atoi s =
     (case s of
        [] \<Rightarrow> None
      | c # cs \<Rightarrow>
          let ds = (if c = CHR ''-'' \<or> c = CHR ''+'' then cs else s)
          in if ds = [] \<or> \<not> list_all is_digit ds then None
             else
               let n = digits_value ds;
                   v = (if c = CHR ''-'' then - n else n)
               in if - (2 ^ 63) \<le> v \<and> v < 2 ^ 63 then Some v else None)"

text \<open>
  The conversion \<^verbatim>\<open>float64(x)\<close> of an integer: the nearest number with a
  significand of 53 bits, a tie going to the even significand. Of the magnitude, which
  has \<open>bitLen\<close> bits, the lowest \<open>k\<close> bits beyond 53 are rounded away. The result is
  again an integer, so the value of a \<^verbatim>\<open>float64\<close> is carried exactly by an \<open>int\<close>.
\<close>

fun bitLen :: "nat \<Rightarrow> nat" where
  "bitLen a = (if a = 0 then 0 else Suc (bitLen (a div 2)))"

declare bitLen.simps [simp del]

definition float64 :: "int \<Rightarrow> int" where
  "float64 x =
     (let a = nat \<bar>x\<bar>;
          k = bitLen a - 53;
          q = a div 2 ^ k;
          r = a mod 2 ^ k;
          m = (if 2 ^ k < 2 * r \<or> (2 * r = 2 ^ k \<and> odd q) then q + 1 else q)
      in sgn x * int (m * 2 ^ k))"

text \<open>
  One observation sent on the channel \<^verbatim>\<open>ch\<close>. Its value is a \<^verbatim>\<open>float64\<close>; every
  value the exporter sends is a constant or the conversion of an integer, and
  \<open>mvalue\<close> is the number that \<^verbatim>\<open>float64\<close> holds.
\<close>

record Metric =
  desc :: Desc
  mvalue :: int
  labelValues :: "string list"

text \<open>
  The run-time panics \<^verbatim>\<open>scrape\<close> can raise. A panic ends the scrape; what it leaves
  behind is the panic together with the metrics already sent on \<^verbatim>\<open>ch\<close>.
\<close>

datatype panic =
    NilDescriptor            \<comment> \<open>\<^verbatim>\<open>MustNewConstMetric\<close> reads a field of a \<^verbatim>\<open>nil\<close> descriptor\<close>
  | InconsistentCardinality  \<comment> \<open>\<^verbatim>\<open>MustNewConstMetric\<close>: label values do not fit the descriptor\<close>
  | IntOfNonInt              \<comment> \<open>\<^verbatim>\<open>reflect.Value.Int\<close> on a value whose kind is not an integer\<close>
  | NumFieldOfZeroValue      \<comment> \<open>\<^verbatim>\<open>reflect.Value.NumField\<close> on the \<^verbatim>\<open>Elem\<close> of a \<^verbatim>\<open>nil\<close> pointer\<close>

definition MustNewConstMetric ::
    "Desc option \<Rightarrow> int \<Rightarrow> string list \<Rightarrow> panic + Metric" where
  "MustNewConstMetric d v lvs =
     (case d of
        None \<Rightarrow> Inl NilDescriptor
      | Some d' \<Rightarrow>
          if length lvs \<noteq> length (variableLabels d') then Inl InconsistentCardinality
          else Inr \<lparr>desc = d', mvalue = v, labelValues = lvs\<rparr>)"

type_synonym crash = "panic \<times> Metric list"

text \<open>A \<^verbatim>\<open>for\<close> loop over a list whose body may panic: the first panic ends it.\<close>

fun forEach :: "('a \<Rightarrow> 's \<Rightarrow> crash + 's) \<Rightarrow> 'a list \<Rightarrow> 's \<Rightarrow> crash + 's" where
  "forEach f [] s = Inr s"
| "forEach f (x # xs) s =
     (case f x s of Inl p \<Rightarrow> Inl p | Inr s' \<Rightarrow> forEach f xs s')"

text \<open>
  The state of the loops of \<^verbatim>\<open>scrape\<close>: the metrics sent on \<^verbatim>\<open>ch\<close> so far and
  \<^verbatim>\<open>subscribersTotal\<close>, an \<^verbatim>\<open>int64\<close>.
\<close>

type_synonym scrape_state = "Metric list \<times> 64 word"

text \<open>
  The body of the innermost loop (lines 188 to 206), for the field \<open>(tag, fv)\<close> of the
  channel called \<open>name\<close>. \<^verbatim>\<open>valueInfoField.Int()\<close> is evaluated before the metric is
  built and panics on a string. The line that is printed when \<^verbatim>\<open>Atoi\<close> fails is left
  out.
\<close>

definition channelField ::
    "string \<Rightarrow> Desc \<Rightarrow> string \<Rightarrow> string \<times> Value \<Rightarrow> scrape_state \<Rightarrow> crash + scrape_state" where
  "channelField key val name tf st =
     (case tf of (tag, fv) \<Rightarrow>
      case st of (ch, subscribersTotal) \<Rightarrow>
        (case (if key = tag
               then (case fv of
                       I64 w \<Rightarrow>
                         (case MustNewConstMetric (Some val) (float64 (sint w)) [name] of
                            Inl p \<Rightarrow> Inl (p, ch)
                          | Inr m \<Rightarrow> Inr (ch @ [m]))
                     | Str s \<Rightarrow> Inl (IntOfNonInt, ch))
               else Inr ch) of
           Inl c \<Rightarrow> Inl c
         | Inr ch' \<Rightarrow>
             Inr (ch',
                  if key = ''subscribers_total'' \<and> tag = ''subscribers''
                  then (case fv of
                          Str s \<Rightarrow>
                            (case Atoi s of
                               Some n \<Rightarrow> subscribersTotal + word_of_int n
                             | None \<Rightarrow> subscribersTotal + 0)
                        | I64 w \<Rightarrow> subscribersTotal + w)
                  else subscribersTotal)))"

text \<open>The body of the loop over \<^verbatim>\<open>ps.Infos\<close> (lines 184 to 208).\<close>

definition channelInfo ::
    "string \<Rightarrow> Desc \<Rightarrow> Channel option \<Rightarrow> scrape_state \<Rightarrow> crash + scrape_state" where
  "channelInfo key val info st =
     (case info of
        None \<Rightarrow> Inl (NumFieldOfZeroValue, fst st)
      | Some c \<Rightarrow> forEach (channelField key val (Channel c)) (Channel_fields c) st)"

text \<open>The type switch on a field of the record (lines 176 to 209).\<close>

definition pushStreamField ::
    "string \<Rightarrow> Desc \<Rightarrow> string \<times> Field \<Rightarrow> scrape_state \<Rightarrow> crash + scrape_state" where
  "pushStreamField key val tf st =
     (case tf of (tag, f) \<Rightarrow>
        (case f of
           Scalar (I64 w) \<Rightarrow>
             (if key = tag
              then (case MustNewConstMetric (Some val) (float64 (sint w)) [''all''] of
                      Inl p \<Rightarrow> Inl (p, fst st)
                    | Inr m \<Rightarrow> Inr (fst st @ [m], snd st))
              else Inr st)
         | Scalar (Str s) \<Rightarrow> Inr st
         | ChannelSlice infos \<Rightarrow> forEach (channelInfo key val) infos st))"

text \<open>
  The body of the loop over the selected metrics (lines 174 to 211). \<open>ps\<close> is the pointer
  the decoder left: for \<^verbatim>\<open>nil\<close>, \<^verbatim>\<open>v\<close> is the zero \<^verbatim>\<open>reflect.Value\<close> and
  \<^verbatim>\<open>v.NumField()\<close> panics.
\<close>

definition selectedMetric ::
    "PushStream option \<Rightarrow> string \<times> Desc \<Rightarrow> scrape_state \<Rightarrow> crash + scrape_state" where
  "selectedMetric ps kv st =
     (case kv of (key, val) \<Rightarrow>
        (case ps of
           None \<Rightarrow> Inl (NumFieldOfZeroValue, fst st)
         | Some p \<Rightarrow> forEach (pushStreamField key val) (PushStream_fields p) st))"

text \<open>
  Lines 172 to 215: the walk, then the metric \<^verbatim>\<open>subscribers_total\<close>, built from the
  entry of that name in the selected map with the value
  \<^verbatim>\<open>float64(subscribersTotal)\<close>, and the return value 1.
\<close>

definition scrapeRecord :: "metrics \<Rightarrow> PushStream option \<Rightarrow> crash + (Metric list \<times> int)" where
  "scrapeRecord selected ps =
     (case forEach (selectedMetric ps) selected ([], 0) of
        Inl c \<Rightarrow> Inl c
      | Inr (ch, subscribersTotal) \<Rightarrow>
          (case MustNewConstMetric (map_of selected ''subscribers_total'')
                  (float64 (sint subscribersTotal)) [''all''] of
             Inl p \<Rightarrow> Inl (p, ch)
           | Inr m \<Rightarrow> Inr (ch @ [m], 1)))"

section \<open>The schema decoder\<close>

text \<open>
  \<^verbatim>\<open>scrape\<close> decodes with \<^verbatim>\<open>json.NewDecoder(body).Decode(&ps)\<close> of Go's standard
  library. The bytes of the response are taken after scanning: \<open>Malformed\<close> stands for
  every stream the scanner rejects (a syntax error, an empty or truncated stream) and
  \<open>Doc j\<close> for a stream whose first JSON value is \<open>j\<close>. \<open>JInt n\<close> is a number
  literal without fraction and exponent, \<open>JFrac\<close> any other number literal; the members
  of an object keep their order and may repeat a key.
\<close>

datatype json =
    JNull
  | JBool bool
  | JInt int
  | JFrac
  | JStr string
  | JArr "json list"
  | JObj "(string \<times> json) list"

datatype body = Malformed | Doc json

datatype jsonError = SyntaxError | UnmarshalTypeError

text \<open>The decoder keeps the first type error and goes on decoding.\<close>

definition saveError :: "jsonError option \<Rightarrow> jsonError \<Rightarrow> jsonError option" where
  "saveError saved e = (case saved of None \<Rightarrow> Some e | Some e0 \<Rightarrow> Some e0)"

text \<open>
  A key of the document names the field whose tag it equals, or else the first field
  whose tag it equals up to case folding. Folding maps the ASCII letters to upper case;
  the only other characters that fold to an ASCII letter are the long s (U+017F, the
  bytes C5 BF) and the Kelvin sign (U+212A, the bytes E2 84 AA).
\<close>

definition toUpper :: "char \<Rightarrow> char" where
  "toUpper c = (if CHR ''a'' \<le> c \<and> c \<le> CHR ''z'' then char_of (of_char c - (32::nat)) else c)"

fun foldName :: "string \<Rightarrow> string" where
  "foldName [] = []"
| "foldName (c # cs) =
     (if c = CHR 0xC5 \<and> take 1 cs = [CHR 0xBF] then CHR ''S'' # foldName (drop 1 cs)
      else if c = CHR 0xE2 \<and> take 2 cs = [CHR 0x84, CHR 0xAA] then CHR ''K'' # foldName (drop 2 cs)
      else toUpper c # foldName cs)"

definition findField :: "string list \<Rightarrow> string \<Rightarrow> string option" where
  "findField tags key =
     (if key \<in> set tags then Some key
      else find (\<lambda>t. foldName t = foldName key) tags)"

text \<open>
  Storing a JSON value in a Go \<^verbatim>\<open>string\<close>: a string is stored, \<^verbatim>\<open>null\<close> leaves the
  field as it is without error, anything else is a type error.
\<close>

fun storeString :: "json \<Rightarrow> string \<Rightarrow> jsonError option \<Rightarrow> string \<times> jsonError option" where
  "storeString JNull old err = (old, err)"
| "storeString (JStr s) old err = (s, err)"
| "storeString j old err = (old, saveError err UnmarshalTypeError)"

text \<open>
  Storing a JSON value in a count field, whose Go type is the one of the value it
  holds: an \<^verbatim>\<open>int64\<close> takes an integer literal within its range, a \<^verbatim>\<open>string\<close> takes a
  string, \<^verbatim>\<open>null\<close> leaves either as it is, anything else is a type error.
\<close>

fun storeValue :: "json \<Rightarrow> Value \<Rightarrow> jsonError option \<Rightarrow> Value \<times> jsonError option" where
  "storeValue JNull old err = (old, err)"
| "storeValue (JInt n) (I64 w) err =
     (if - (2 ^ 63) \<le> n \<and> n < 2 ^ 63 then (I64 (word_of_int n), err)
      else (I64 w, saveError err UnmarshalTypeError))"
| "storeValue (JStr s) (Str t) err = (Str s, err)"
| "storeValue j old err = (old, saveError err UnmarshalTypeError)"

definition channelTags :: "string list" where
  "channelTags = [''channel'', ''published_messages'', ''stored_messages'', ''subscribers'']"

definition pushStreamTags :: "string list" where
  "pushStreamTags = [''channels'', ''infos'']"

text \<open>One member of a JSON object decoded into a \<^verbatim>\<open>Channel\<close>.\<close>

definition channelMember ::
    "string \<times> json \<Rightarrow> Channel \<times> jsonError option \<Rightarrow> Channel \<times> jsonError option" where
  "channelMember kv st =
     (case kv of (k, j) \<Rightarrow>
      case st of (c, err) \<Rightarrow>
        (case findField channelTags k of
           None \<Rightarrow> (c, err)
         | Some f \<Rightarrow>
             if f = ''channel''
             then (case storeString j (Channel c) err of (x, e) \<Rightarrow> (c\<lparr>Channel := x\<rparr>, e))
             else if f = ''published_messages''
             then (case storeValue j (PublishedMessages c) err of
                     (x, e) \<Rightarrow> (c\<lparr>PublishedMessages := x\<rparr>, e))
             else if f = ''stored_messages''
             then (case storeValue j (StoredMessages c) err of
                     (x, e) \<Rightarrow> (c\<lparr>StoredMessages := x\<rparr>, e))
             else (case storeValue j (Subscribers c) err of
                     (x, e) \<Rightarrow> (c\<lparr>Subscribers := x\<rparr>, e))))"

text \<open>
  A JSON value decoded into an element of \<^verbatim>\<open>Infos\<close>, a pointer: \<^verbatim>\<open>null\<close> sets it to
  \<^verbatim>\<open>nil\<close>; for any other value a \<^verbatim>\<open>nil\<close> pointer is first made to point to a new
  zero \<^verbatim>\<open>Channel\<close>, and a pointer that is already set keeps its target, into which an
  object is then decoded.
\<close>

definition decodeSlot ::
    "schema \<Rightarrow> json \<Rightarrow> Channel option \<Rightarrow> jsonError option
      \<Rightarrow> Channel option \<times> jsonError option" where
  "decodeSlot sch j slot err =
     (let c0 = (case slot of None \<Rightarrow> zeroChannel sch | Some c \<Rightarrow> c)
      in case j of
           JNull \<Rightarrow> (None, err)
         | JObj ms \<Rightarrow> (case fold channelMember ms (c0, err) of (c, e) \<Rightarrow> (Some c, e))
         | _ \<Rightarrow> (Some c0, saveError err UnmarshalTypeError))"

text \<open>
  The elements of a JSON array decoded into the slice, element \<open>i\<close> into slot \<open>i\<close> of
  the backing array, which grows when it has no such slot.
\<close>

fun decodeElems ::
    "schema \<Rightarrow> json list \<Rightarrow> nat \<Rightarrow> Channel option list \<Rightarrow> jsonError option
      \<Rightarrow> Channel option list \<times> jsonError option" where
  "decodeElems sch [] i backing err = (backing, err)"
| "decodeElems sch (j # js) i backing err =
     (case decodeSlot sch j (if i < length backing then backing ! i else None) err of
        (slot, e) \<Rightarrow>
          decodeElems sch js (i + 1)
            (if i < length backing then backing[i := slot] else backing @ [slot]) e)"

text \<open>
  One member of the top-level object decoded into the \<^verbatim>\<open>PushStream\<close>. The state holds
  the record, the backing array of \<^verbatim>\<open>Infos\<close> (which a shorter array leaves behind
  when the same field is decoded again) and the saved error. An array sets the length
  of the slice to its number of elements, the empty array and \<^verbatim>\<open>null\<close> drop the
  backing array.
\<close>

definition pushStreamMember ::
    "schema \<Rightarrow> string \<times> json \<Rightarrow> PushStream \<times> Channel option list \<times> jsonError option
      \<Rightarrow> PushStream \<times> Channel option list \<times> jsonError option" where
  "pushStreamMember sch kv st =
     (case kv of (k, j) \<Rightarrow>
      case st of (ps, backing, err) \<Rightarrow>
        (case findField pushStreamTags k of
           None \<Rightarrow> (ps, backing, err)
         | Some f \<Rightarrow>
             if f = ''channels''
             then (case storeValue j (Channels ps) err of
                     (x, e) \<Rightarrow> (ps\<lparr>Channels := x\<rparr>, backing, e))
             else (case j of
                     JNull \<Rightarrow> (ps\<lparr>Infos := []\<rparr>, [], err)
                   | JArr js \<Rightarrow>
                       (if js = [] then (ps\<lparr>Infos := []\<rparr>, [], err)
                        else (case decodeElems sch js 0 backing err of
                                (backing', e) \<Rightarrow>
                                  (ps\<lparr>Infos := take (length js) backing'\<rparr>, backing', e)))
                   | _ \<Rightarrow> (ps, backing, saveError err UnmarshalTypeError))))"

text \<open>
  \<^verbatim>\<open>Decode(&ps)\<close> with \<^verbatim>\<open>ps\<close> pointing to a new zero record: the pointer the call
  leaves in \<^verbatim>\<open>ps\<close> and the error it returns. A document that is \<^verbatim>\<open>null\<close> sets the
  pointer to \<^verbatim>\<open>nil\<close> without error; one that is neither \<^verbatim>\<open>null\<close> nor an object is a
  type error.
\<close>

definition Decode :: "schema \<Rightarrow> body \<Rightarrow> PushStream option \<times> jsonError option" where
  "Decode sch b =
     (case b of
        Malformed \<Rightarrow> (Some (NewPushStream sch), Some SyntaxError)
      | Doc j \<Rightarrow>
          (case j of
             JNull \<Rightarrow> (None, None)
           | JObj ms \<Rightarrow>
               (case fold (pushStreamMember sch) ms (NewPushStream sch, [], None) of
                  (ps, backing, err) \<Rightarrow> (Some ps, err))
           | _ \<Rightarrow> (Some (NewPushStream sch), Some UnmarshalTypeError)))"

section \<open>The exporter\<close>

text \<open>
  Of the exporter, the scrape counter and the selected metrics. The result of
  \<^verbatim>\<open>e.fetch()\<close> is an input of the model; what the exporter writes to its log is left out.
\<close>

record Exporter =
  totalScrapes :: nat
  selectedPushStreamMetrics :: metrics

datatype fetched = FetchError | FetchOk body

definition totalScrapesDesc :: Desc where
  "totalScrapesDesc =
     \<lparr>fqName = BuildFQName namespace [] ''exporter_total_scrapes'',
      help_text = ''Current total nginx scrapes.'',
      variableLabels = []\<rparr>"

text \<open>
  Lines 167 to 215 of \<^verbatim>\<open>scrape\<close>, from what the decoder returned: the metrics sent
  and the return value \<^verbatim>\<open>up\<close>, or a panic.
\<close>

definition scrapeDecoded ::
    "metrics \<Rightarrow> PushStream option \<times> jsonError option \<Rightarrow> crash + (Metric list \<times> int)" where
  "scrapeDecoded selected r =
     (case r of (ps, jsonError) \<Rightarrow>
        (case jsonError of
           Some err \<Rightarrow> Inr ([], 0)
         | None \<Rightarrow> scrapeRecord selected ps))"

text \<open>
  \<^verbatim>\<open>scrape\<close>, for the version \<open>sch\<close> of package \<^verbatim>\<open>pushstream\<close>: the exporter with
  its counter incremented, and the outcome.
\<close>

definition scrape ::
    "schema \<Rightarrow> Exporter \<Rightarrow> fetched \<Rightarrow> Exporter \<times> (crash + (Metric list \<times> int))" where
  "scrape sch e f =
     (let e' = e\<lparr>totalScrapes := totalScrapes e + 1\<rparr>
      in case f of
           FetchError \<Rightarrow> (e', Inr ([], 0))
         | FetchOk b \<Rightarrow> (e', scrapeDecoded (selectedPushStreamMetrics e) (Decode sch b)))"

text \<open>
  \<^verbatim>\<open>Collect\<close>: after the metrics of \<^verbatim>\<open>scrape\<close>, the liveness gauge with the value
  \<^verbatim>\<open>up\<close> and the scrape counter, whose value is the number of scrapes as a
  \<^verbatim>\<open>float64\<close>. A panic of \<^verbatim>\<open>scrape\<close> passes through \<^verbatim>\<open>Collect\<close>.
\<close>

definition Collect ::
    "schema \<Rightarrow> Exporter \<Rightarrow> fetched \<Rightarrow> Exporter \<times> (crash + Metric list)" where
  "Collect sch e f =
     (case scrape sch e f of
        (e', r) \<Rightarrow>
          (e', case r of
                 Inl c \<Rightarrow> Inl c
               | Inr (ch, up) \<Rightarrow>
                   (case MustNewConstMetric (Some nginxUp) up [] of
                      Inl p \<Rightarrow> Inl (p, ch)
                    | Inr m \<Rightarrow>
                        Inr (ch @ [m,
                                   \<lparr>desc = totalScrapesDesc,
                                    mvalue = float64 (int (totalScrapes e')),
                                    labelValues = []\<rparr>]))))"

section \<open>Payloads, records and what a selected key contributes\<close>

text \<open>
  The two wire forms of a response with the top-level count \<open>n\<close> and one entry
  \<open>(name, published, stored, subscribers)\<close> per channel: every count a number, or
  every count a string.
\<close>

definition numberChannel :: "string \<times> int \<times> int \<times> int \<Rightarrow> json" where
  "numberChannel c =
     (case c of (name, p, s, u) \<Rightarrow>
        JObj [(''channel'', JStr name), (''published_messages'', JInt p),
              (''stored_messages'', JInt s), (''subscribers'', JInt u)])"

definition numberPayload :: "int \<Rightarrow> (string \<times> int \<times> int \<times> int) list \<Rightarrow> json" where
  "numberPayload n cs =
     JObj [(''channels'', JInt n), (''infos'', JArr (map numberChannel cs))]"

definition stringChannel :: "string \<times> string \<times> string \<times> string \<Rightarrow> json" where
  "stringChannel c =
     (case c of (name, p, s, u) \<Rightarrow>
        JObj [(''channel'', JStr name), (''published_messages'', JStr p),
              (''stored_messages'', JStr s), (''subscribers'', JStr u)])"

definition stringPayload :: "string \<Rightarrow> (string \<times> string \<times> string \<times> string) list \<Rightarrow> json" where
  "stringPayload n cs =
     JObj [(''channels'', JStr n), (''infos'', JArr (map stringChannel cs))]"

definition inInt64 :: "int \<Rightarrow> bool" where
  "inInt64 n = (- (2 ^ 63) \<le> n \<and> n < 2 ^ 63)"

text \<open>The records of the two versions of the package with these contents.\<close>

definition int64Channel :: "string \<times> int \<times> int \<times> int \<Rightarrow> Channel" where
  "int64Channel c =
     (case c of (name, p, s, u) \<Rightarrow>
        \<lparr>Channel = name, PublishedMessages = I64 (word_of_int p),
         StoredMessages = I64 (word_of_int s), Subscribers = I64 (word_of_int u)\<rparr>)"

definition int64Record :: "int \<Rightarrow> (string \<times> int \<times> int \<times> int) list \<Rightarrow> PushStream" where
  "int64Record n cs =
     \<lparr>Channels = I64 (word_of_int n), Infos = map (\<lambda>c. Some (int64Channel c)) cs\<rparr>"

definition strChannel :: "string \<times> string \<times> string \<times> string \<Rightarrow> Channel" where
  "strChannel c =
     (case c of (name, p, s, u) \<Rightarrow>
        \<lparr>Channel = name, PublishedMessages = Str p, StoredMessages = Str s,
         Subscribers = Str u\<rparr>)"

definition strRecord :: "string \<Rightarrow> (string \<times> string \<times> string \<times> string) list \<Rightarrow> PushStream" where
  "strRecord n cs = \<lparr>Channels = Str n, Infos = map (\<lambda>c. Some (strChannel c)) cs\<rparr>"

text \<open>
  An observation as the metrics layer sees it: the metric name, the label values and
  the value.
\<close>

definition sampleOf :: "Metric \<Rightarrow> string \<times> string list \<times> int" where
  "sampleOf m = (fqName (desc m), labelValues m, mvalue m)"

text \<open>
  What a subscriber field adds to \<^verbatim>\<open>subscribersTotal\<close>: an \<^verbatim>\<open>int64\<close> itself, a
  string the integer \<^verbatim>\<open>Atoi\<close> reads from it, and 0 when \<^verbatim>\<open>Atoi\<close> fails.
\<close>

definition subscriberCount :: "Value \<Rightarrow> 64 word" where
  "subscriberCount fv =
     (case fv of
        I64 w \<Rightarrow> w
      | Str s \<Rightarrow> (case Atoi s of Some n \<Rightarrow> word_of_int n | None \<Rightarrow> 0))"

definition isI64 :: "Value \<Rightarrow> bool" where
  "isI64 fv = (case fv of I64 w \<Rightarrow> True | Str s \<Rightarrow> False)"

text \<open>
  The walk for the key \<open>key\<close> does not panic on the channel \<open>c\<close> when the field
  tagged \<open>key\<close>, if there is one, is an \<^verbatim>\<open>int64\<close>; on a record, when no element of
  \<^verbatim>\<open>Infos\<close> is \<^verbatim>\<open>nil\<close> and it does not panic on any channel.
\<close>

definition intAt :: "string \<Rightarrow> Channel \<Rightarrow> bool" where
  "intAt key c = list_all (\<lambda>(tag, fv). key \<noteq> tag \<or> isI64 fv) (Channel_fields c)"

definition walkable :: "string \<Rightarrow> PushStream \<Rightarrow> bool" where
  "walkable key ps =
     list_all (\<lambda>i. case i of None \<Rightarrow> False | Some c \<Rightarrow> intAt key c) (Infos ps)"

text \<open>The metrics the walk for \<open>key\<close> sends, and what it adds to the total.\<close>

definition channelMetrics :: "string \<Rightarrow> Desc \<Rightarrow> Channel \<Rightarrow> Metric list" where
  "channelMetrics key val c =
     concat (map (\<lambda>(tag, fv).
               if key = tag
               then (case fv of
                       I64 w \<Rightarrow>
                         [\<lparr>desc = val, mvalue = float64 (sint w), labelValues = [Channel c]\<rparr>]
                     | Str s \<Rightarrow> [])
               else [])
             (Channel_fields c))"

definition recordMetrics :: "string \<Rightarrow> Desc \<Rightarrow> PushStream \<Rightarrow> Metric list" where
  "recordMetrics key val ps =
     (case Channels ps of
        I64 w \<Rightarrow>
          if key = ''channels''
          then [\<lparr>desc = val, mvalue = float64 (sint w), labelValues = [''all'']\<rparr>] else []
      | Str s \<Rightarrow> [])
     @ concat (map (\<lambda>i. case i of None \<Rightarrow> [] | Some c \<Rightarrow> channelMetrics key val c)
                (Infos ps))"

definition recordTotal :: "string \<Rightarrow> PushStream \<Rightarrow> 64 word" where
  "recordTotal key ps =
     (if key = ''subscribers_total''
      then sum_list (map (\<lambda>i. case i of None \<Rightarrow> 0 | Some c \<Rightarrow> subscriberCount (Subscribers c))
                      (Infos ps))
      else 0)"

text \<open>
  The JSON values an \<^verbatim>\<open>int64\<close> field does not take: everything but \<^verbatim>\<open>null\<close>, which
  the decoder skips, and an integer literal within the range of \<^verbatim>\<open>int64\<close>.
\<close>

definition int64Rejects :: "json \<Rightarrow> bool" where
  "int64Rejects j = (case j of JNull \<Rightarrow> False | JInt n \<Rightarrow> \<not> inInt64 n | _ \<Rightarrow> True)"

text \<open>
  An element of the array \<^verbatim>\<open>infos\<close> with such a value in a count position: an object
  with a member whose key names one of the three count fields of \<^verbatim>\<open>Channel\<close>. A
  top-level object with such a value in a count position: a member whose key names
  \<^verbatim>\<open>Channels\<close>, or a member naming \<^verbatim>\<open>Infos\<close> that is an array with such an element.
\<close>

definition channelRejects :: "json \<Rightarrow> bool" where
  "channelRejects j =
     (case j of
        JObj ms \<Rightarrow>
          list_ex (\<lambda>(k, v). case findField channelTags k of
                               None \<Rightarrow> False
                             | Some f \<Rightarrow> f \<noteq> ''channel'' \<and> int64Rejects v) ms
      | _ \<Rightarrow> False)"

definition payloadRejects :: "(string \<times> json) list \<Rightarrow> bool" where
  "payloadRejects ms =
     list_ex (\<lambda>(k, v). case findField pushStreamTags k of
                          None \<Rightarrow> False
                        | Some f \<Rightarrow>
                            if f = ''channels'' then int64Rejects v
                            else (case v of JArr js \<Rightarrow> list_ex channelRejects js | _ \<Rightarrow> False)) ms"

text \<open>The count fields of a channel, or of the target of a pointer, are \<^verbatim>\<open>int64\<close>.\<close>

definition intTyped :: "Channel \<Rightarrow> bool" where
  "intTyped c =
     (isI64 (PublishedMessages c) \<and> isI64 (StoredMessages c) \<and> isI64 (Subscribers c))"

definition slotTyped :: "Channel option \<Rightarrow> bool" where
  "slotTyped slot = (case slot of None \<Rightarrow> True | Some c \<Rightarrow> intTyped c)"

section \<open>Properties of the metric filter and of the catalog\<close>

lemma strings_Split_not_Nil: "strings_Split s sep \<noteq> []"
  by (induction s) (auto split: list.splits)

lemma strings_Join_Cons_Cons: "strings_Join ((c # t) # ts) sep = c # strings_Join (t # ts) sep"
  by (cases ts) simp_all

lemma strings_Join_Split: "strings_Join (strings_Split s sep) [sep] = s"
proof (induction s)
  case Nil
  show ?case by simp
next
  case (Cons c cs)
  obtain t ts where ts: "strings_Split cs sep = t # ts"
    using strings_Split_not_Nil [of cs sep] by (cases "strings_Split cs sep") auto
  with Cons show ?case
    by (simp add: strings_Join_Cons_Cons)
qed

lemma strings_Split_no_sep: "t \<in> set (strings_Split s sep) \<Longrightarrow> sep \<notin> set t"
proof (induction s arbitrary: t)
  case Nil
  then show ?case by simp
next
  case (Cons c cs)
  obtain u us where us: "strings_Split cs sep = u # us"
    using strings_Split_not_Nil [of cs sep] by (cases "strings_Split cs sep") auto
  from Cons.IH [of u] Cons.IH us have u: "sep \<notin> set u" and rest: "\<And>x. x \<in> set us \<Longrightarrow> sep \<notin> set x"
    by auto
  from Cons.prems us u rest show ?case
    by (auto split: if_splits)
qed

lemma strings_Split_single: "sep \<notin> set x \<Longrightarrow> strings_Split x sep = [x]"
  by (induction x) auto

lemma strings_Split_append: "sep \<notin> set x \<Longrightarrow> strings_Split (x @ sep # r) sep = x # strings_Split r sep"
  by (induction x) auto

lemma strings_Split_Join:
  "ts \<noteq> [] \<Longrightarrow> \<forall>t \<in> set ts. sep \<notin> set t \<Longrightarrow> strings_Split (strings_Join ts [sep]) sep = ts"
proof (induction ts "[sep]" rule: strings_Join.induct)
  case 1
  then show ?case by simp
next
  case (2 x)
  then show ?case by (simp add: strings_Split_single)
next
  case (3 x y ys)
  then show ?case by (simp add: strings_Split_append)
qed

lemma filterMetrics_filter:
  "filterMetrics s = filter (\<lambda>(k, d). k \<in> set (strings_Split s (CHR '',''))) pushStreamMetrics"
proof (cases s)
  case Nil
  then show ?thesis by (simp add: filterMetrics_def pushStreamMetrics_def)
next
  case (Cons c cs)
  then show ?thesis by (simp add: filterMetrics_def Let_def)
qed

lemma pushStreamMetrics_keys:
  "map fst pushStreamMetrics =
     [''channels'', ''subscribers'', ''published_messages'', ''stored_messages'', ''subscribers_total'']"
  by (simp add: pushStreamMetrics_def)

lemma pushStreamMetrics_distinct: "distinct (map fst pushStreamMetrics)"
  by (simp add: pushStreamMetrics_keys)

text \<open>
  Claim C7. For every selection string, \<^verbatim>\<open>filterMetrics\<close> returns exactly the catalog
  entries whose key is equal, byte for byte, to one of the pieces of the string between
  its commas: the pieces joined by commas give the string back and none contains a comma,
  so nothing is trimmed and letters are not folded. A piece that is no catalog key selects
  nothing, and the function has no error result.
\<close>

theorem filterMetrics_exact_tokens:
  "filterMetrics s = filter (\<lambda>(k, d). k \<in> set (strings_Split s (CHR '',''))) pushStreamMetrics
   \<and> strings_Join (strings_Split s (CHR '','')) '','' = s
   \<and> (\<forall>t \<in> set (strings_Split s (CHR '','')). CHR '','' \<notin> set t)"
  using filterMetrics_filter strings_Join_Split strings_Split_no_sep by blast

theorem filterMetrics_exact_tokens_witness:
  "filterMetrics ''Channels, subscribers,bogus_metric,stored_messages,subscribers_total ,channels''
     = [(''channels'',
           newPushStreamMetrics ''channels''
             ''Current number of existing channels on this server.''),
        (''stored_messages'',
           newPushStreamMetrics ''stored_messages''
             ''Current number of existing channels on this server.'')]
   \<and> strings_Split
         ''Channels, subscribers,bogus_metric,stored_messages,subscribers_total ,channels''
         (CHR '','')
     = [''Channels'', '' subscribers'', ''bogus_metric'', ''stored_messages'',
        ''subscribers_total '', ''channels'']"
  using filterMetrics_exact_tokens
    [of "''Channels, subscribers,bogus_metric,stored_messages,subscribers_total ,channels''"]
  by (simp add: pushStreamMetrics_def)

text \<open>
  Claim C8. \<^verbatim>\<open>metrics.String\<close> of the catalog is its five keys in ascending order,
  joined by commas, and that string is the default of the metric selection.
\<close>

theorem metrics_String_sorted_default:
  "metrics_String pushStreamMetrics =
     ''channels,published_messages,stored_messages,subscribers,subscribers_total''
   \<and> nginxMetricFields_default = metrics_String pushStreamMetrics
   \<and> strings_Split (metrics_String pushStreamMetrics) (CHR '','') =
       sort (map fst pushStreamMetrics)
   \<and> sort (map fst pushStreamMetrics) =
       [''channels'', ''published_messages'', ''stored_messages'', ''subscribers'',
        ''subscribers_total'']
   \<and> length pushStreamMetrics = 5"
  by (simp add: nginxMetricFields_default_def metrics_String_def pushStreamMetrics_def)

text \<open>
  Claim C10. For every selection string, the map \<^verbatim>\<open>filterMetrics\<close> returns is a part
  of the catalog: every key it binds is bound to the same descriptor in the catalog, no
  key occurs twice, there are at most five entries, and removing repeated pieces from
  the selection string does not change the result.
\<close>

theorem filterMetrics_submap:
  "(\<forall>k d. map_of (filterMetrics s) k = Some d \<longrightarrow> map_of pushStreamMetrics k = Some d)
   \<and> distinct (map fst (filterMetrics s))
   \<and> length (filterMetrics s) \<le> 5
   \<and> filterMetrics (strings_Join (remdups (strings_Split s (CHR '',''))) '','')
       = filterMetrics s"
proof (intro conjI allI impI)
  fix k d
  assume "map_of (filterMetrics s) k = Some d"
  then have "(k, d) \<in> set (filterMetrics s)" by (rule map_of_SomeD)
  then have "(k, d) \<in> set pushStreamMetrics" by (simp add: filterMetrics_filter)
  with pushStreamMetrics_distinct show "map_of pushStreamMetrics k = Some d" by simp
next
  show "distinct (map fst (filterMetrics s))"
    unfolding filterMetrics_filter using pushStreamMetrics_distinct by (rule distinct_map_filter)
next
  have "length (filterMetrics s) \<le> length pushStreamMetrics"
    unfolding filterMetrics_filter by (rule length_filter_le)
  then show "length (filterMetrics s) \<le> 5" by (simp add: pushStreamMetrics_def)
next
  let ?ts = "remdups (strings_Split s (CHR '',''))"
  have "?ts \<noteq> []" using strings_Split_not_Nil [of s "CHR '',''"] by simp
  moreover have "\<forall>t \<in> set ?ts. CHR '','' \<notin> set t"
    using strings_Split_no_sep by auto
  ultimately have "strings_Split (strings_Join ?ts '','') (CHR '','') = ?ts"
    by (rule strings_Split_Join)
  then show "filterMetrics (strings_Join ?ts '','') = filterMetrics s"
    by (simp add: filterMetrics_filter)
qed

theorem filterMetrics_submap_witness:
  "map_of (filterMetrics ''subscribers,bogus,subscribers'') ''subscribers''
     = Some (newPushStreamMetrics ''subscribers''
               ''Current number of connected subscribers on channels on this server.'')
   \<and> map_of pushStreamMetrics ''subscribers''
     = Some (newPushStreamMetrics ''subscribers''
               ''Current number of connected subscribers on channels on this server.'')
   \<and> length (filterMetrics ''subscribers,bogus,subscribers'') = 1
   \<and> filterMetrics ''bogus,subscribers'' = filterMetrics ''subscribers,bogus,subscribers''"
  using filterMetrics_submap [of "''subscribers,bogus,subscribers''"]
  by (simp add: filterMetrics_def pushStreamMetrics_def)

section \<open>Properties of the extraction engine\<close>

lemma bitLen_le: "a < 2 ^ n \<Longrightarrow> bitLen a \<le> n"
proof (induction n arbitrary: a)
  case 0
  then show ?case by (simp add: bitLen.simps)
next
  case (Suc n)
  show ?case
  proof (cases "a = 0")
    case True
    then show ?thesis by (simp add: bitLen.simps)
  next
    case False
    from Suc.prems have "a div 2 < 2 ^ n" by simp
    from Suc.IH [OF this] False show ?thesis
      by (subst bitLen.simps) simp
  qed
qed

lemma float64_small: "\<bar>x\<bar> < 2 ^ 53 \<Longrightarrow> float64 x = x"
proof -
  assume a: "\<bar>x\<bar> < 2 ^ 53"
  then have "nat \<bar>x\<bar> < 2 ^ 53" by simp
  then have "bitLen (nat \<bar>x\<bar>) \<le> 53" by (rule bitLen_le)
  then have k: "bitLen (nat \<bar>x\<bar>) - 53 = 0" by simp
  show ?thesis
    by (simp add: float64_def Let_def k sgn_if)
qed

lemma bitLen_2_53: "bitLen 9007199254740992 = 54"
  by (simp add: bitLen.simps)

lemma float64_exact: "\<bar>x\<bar> \<le> 2 ^ 53 \<Longrightarrow> float64 x = x"
proof (cases "\<bar>x\<bar> < 2 ^ 53")
  case True
  then show ?thesis by (rule float64_small)
next
  case False
  assume "\<bar>x\<bar> \<le> 2 ^ 53"
  with False have "x = 9007199254740992 \<or> x = - 9007199254740992" by auto
  then show ?thesis
    by (auto simp: float64_def bitLen_2_53)
qed

lemma float64_rounds_down: "float64 9007199254740993 = 9007199254740992"
  unfolding float64_def Let_def by (simp add: bitLen.simps)

lemma channelInfo_ok:
  assumes "intAt key c" and "length (variableLabels val) = 1"
  shows "channelInfo key val (Some c) (ch, tot) =
           Inr (ch @ channelMetrics key val c,
                tot + (if key = ''subscribers_total'' then subscriberCount (Subscribers c) else 0))"
  using assms
  by (auto simp: channelInfo_def channelField_def Channel_fields_def intAt_def isI64_def
      channelMetrics_def MustNewConstMetric_def subscriberCount_def
      split: Value.splits option.splits)

lemma forEach_channelInfo:
  assumes "list_all (\<lambda>i. case i of None \<Rightarrow> False | Some c \<Rightarrow> intAt key c) infos"
    and "length (variableLabels val) = 1"
  shows "forEach (channelInfo key val) infos (ch, tot) =
           Inr (ch @ concat (map (\<lambda>i. case i of None \<Rightarrow> [] | Some c \<Rightarrow> channelMetrics key val c) infos),
                tot + (if key = ''subscribers_total''
                       then sum_list (map (\<lambda>i. case i of None \<Rightarrow> 0 | Some c \<Rightarrow> subscriberCount (Subscribers c)) infos)
                       else 0))"
  using assms
proof (induction infos arbitrary: ch tot)
  case Nil
  then show ?case by simp
next
  case (Cons i infos)
  from Cons.prems obtain c where i: "i = Some c" and c: "intAt key c"
    by (cases i) auto
  from Cons.prems have rest: "list_all (\<lambda>i. case i of None \<Rightarrow> False | Some c \<Rightarrow> intAt key c) infos"
    by simp
  show ?case
    by (simp add: i channelInfo_ok [OF c Cons.prems(2)] Cons.IH [OF rest Cons.prems(2)] add.assoc)
qed

lemma selectedMetric_ok:
  assumes "walkable key ps" and "length (variableLabels val) = 1"
  shows "selectedMetric (Some ps) (key, val) (ch, tot) =
           Inr (ch @ recordMetrics key val ps, tot + recordTotal key ps)"
proof -
  have w: "list_all (\<lambda>i. case i of None \<Rightarrow> False | Some c \<Rightarrow> intAt k c) (Infos ps)"
    if "k = key" for k
    using assms(1) unfolding that by (simp add: walkable_def)
  have walk: "forEach (channelInfo k val) (Infos ps) (ch', tot) =
           Inr (ch' @ concat (map (\<lambda>i. case i of None \<Rightarrow> [] | Some c \<Rightarrow> channelMetrics k val c) (Infos ps)),
                tot + recordTotal k ps)" if "k = key" for k ch'
    using forEach_channelInfo [OF w [OF that] assms(2)] by (simp add: recordTotal_def)
  show ?thesis
  proof (cases "Channels ps")
    case (I64 x)
    show ?thesis
    proof (cases "key = ''channels''")
      case True
      have "recordTotal ''channels'' ps = 0" by (simp add: recordTotal_def)
      with I64 True walk [of "''channels''"] show ?thesis
        by (simp add: selectedMetric_def PushStream_fields_def pushStreamField_def
            MustNewConstMetric_def assms(2) recordMetrics_def)
    next
      case False
      with I64 walk [of key] show ?thesis
        by (simp add: selectedMetric_def PushStream_fields_def pushStreamField_def
            recordMetrics_def)
    qed
  next
    case (Str x)
    with walk [of key] show ?thesis
      by (simp add: selectedMetric_def PushStream_fields_def pushStreamField_def
          recordMetrics_def)
  qed
qed

lemma forEach_selectedMetric:
  assumes "list_all (\<lambda>(key, val). walkable key ps \<and> length (variableLabels val) = 1) sel"
  shows "forEach (selectedMetric (Some ps)) sel (ch, tot) =
           Inr (ch @ concat (map (\<lambda>(key, val). recordMetrics key val ps) sel),
                tot + sum_list (map (\<lambda>(key, val). recordTotal key ps) sel))"
  using assms
proof (induction sel arbitrary: ch tot)
  case Nil
  then show ?case by simp
next
  case (Cons kv sel)
  obtain key val where kv: "kv = (key, val)" by (cases kv)
  from Cons.prems kv have w: "walkable key ps" and l: "length (variableLabels val) = 1"
    and rest: "list_all (\<lambda>(key, val). walkable key ps \<and> length (variableLabels val) = 1) sel"
    by simp_all
  show ?case
    by (simp add: kv selectedMetric_ok [OF w l] Cons.IH [OF rest] add.assoc)
qed

lemma sum_recordTotal:
  assumes "distinct (map fst sel)"
  shows "sum_list (map (\<lambda>(key, val). recordTotal key ps) sel) =
           (if ''subscribers_total'' \<in> fst ` set sel then recordTotal ''subscribers_total'' ps else 0)"
  using assms
proof (induction sel)
  case Nil
  then show ?case by simp
next
  case (Cons kv sel)
  obtain key val where kv: "kv = (key, val)" by (cases kv)
  show ?case
  proof (cases "key = ''subscribers_total''")
    case True
    with Cons kv have "''subscribers_total'' \<notin> fst ` set sel" by auto
    with Cons kv True show ?thesis by simp
  next
    case False
    then have "recordTotal key ps = 0" by (simp add: recordTotal_def)
    with Cons kv False show ?thesis by simp
  qed
qed

lemma scrapeRecord_ok:
  assumes sel: "list_all (\<lambda>(key, val). walkable key ps \<and> length (variableLabels val) = 1) sel"
    and dist: "distinct (map fst sel)"
    and tot: "map_of sel ''subscribers_total'' = Some d"
  shows "scrapeRecord sel (Some ps) =
           Inr (concat (map (\<lambda>(key, val). recordMetrics key val ps) sel)
                @ [\<lparr>desc = d, mvalue = float64 (sint (recordTotal ''subscribers_total'' ps)),
                    labelValues = [''all'']\<rparr>], 1)"
proof -
  from tot have mem: "(''subscribers_total'', d) \<in> set sel" by (rule map_of_SomeD)
  then have "''subscribers_total'' \<in> fst ` set sel" by force
  with dist have s: "sum_list (map (\<lambda>(key, val). recordTotal key ps) sel) = recordTotal ''subscribers_total'' ps"
    by (simp add: sum_recordTotal)
  from sel mem have "length (variableLabels d) = 1"
    by (auto simp: list_all_iff)
  then show ?thesis
    by (simp add: scrapeRecord_def forEach_selectedMetric [OF sel] s tot MustNewConstMetric_def)
qed

lemma decodeSlot_numberChannel:
  assumes "inInt64 p" "inInt64 s" "inInt64 u"
  shows "decodeSlot NumberSchema (numberChannel (name, p, s, u)) None None =
           (Some (int64Channel (name, p, s, u)), None)"
  using assms
  by (simp add: decodeSlot_def numberChannel_def channelMember_def findField_def
      channelTags_def zeroChannel_def zeroValue_def int64Channel_def inInt64_def)

lemma decodeElems_numberChannel:
  assumes "\<forall>(name, p, s, u) \<in> set cs. inInt64 p \<and> inInt64 s \<and> inInt64 u"
  shows "decodeElems NumberSchema (map numberChannel cs) (length b) b None =
           (b @ map (\<lambda>c. Some (int64Channel c)) cs, None)"
  using assms
proof (induction cs arbitrary: b)
  case Nil
  then show ?case by simp
next
  case (Cons c cs)
  obtain name p s u where c: "c = (name, p, s, u)" by (cases c)
  from Cons.prems c have r: "inInt64 p" "inInt64 s" "inInt64 u" by auto
  from Cons.prems have rest: "\<forall>(name, p, s, u) \<in> set cs. inInt64 p \<and> inInt64 s \<and> inInt64 u"
    by simp
  from Cons.IH [OF rest, of "b @ [Some (int64Channel c)]"] show ?case
    by (simp add: c decodeSlot_numberChannel [OF r])
qed

lemma Decode_numberPayload:
  assumes "inInt64 n" and "\<forall>(name, p, s, u) \<in> set cs. inInt64 p \<and> inInt64 s \<and> inInt64 u"
  shows "Decode NumberSchema (Doc (numberPayload n cs)) = (Some (int64Record n cs), None)"
proof -
  from assms(1) have n: "- (2 ^ 63) \<le> n" "n < 2 ^ 63" by (simp_all add: inInt64_def)
  from decodeElems_numberChannel [OF assms(2), of "[]"] n show ?thesis
    by (simp add: Decode_def numberPayload_def pushStreamMember_def findField_def
        pushStreamTags_def NewPushStream_def zeroValue_def int64Record_def)
qed

lemma mset_concat_map:
  "mset (concat (map f xs)) = sum_mset (image_mset (\<lambda>x. mset (f x)) (mset xs))"
  by (induction xs) simp_all

lemma intAt_int64Channel: "key \<noteq> ''channel'' \<Longrightarrow> intAt key (int64Channel c)"
  by (cases c) (simp add: intAt_def int64Channel_def Channel_fields_def isI64_def)

lemma walkable_int64Record: "key \<noteq> ''channel'' \<Longrightarrow> walkable key (int64Record n cs)"
  by (simp add: walkable_def int64Record_def list_all_iff intAt_int64Channel)

lemma recordMetrics_int64Record:
  "recordMetrics key val (int64Record n cs) =
     (if key = ''channels''
      then [\<lparr>desc = val, mvalue = float64 (sint (word_of_int n :: 64 word)),
             labelValues = [''all'']\<rparr>]
      else [])
     @ concat (map (channelMetrics key val \<circ> int64Channel) cs)"
  by (simp add: recordMetrics_def int64Record_def comp_def)

lemma recordTotal_int64Record:
  "recordTotal ''subscribers_total'' (int64Record n cs) =
     word_of_int (\<Sum>(name, p, s, u)\<leftarrow>cs. u)"
  by (induction cs)
     (auto simp: recordTotal_def int64Record_def int64Channel_def subscriberCount_def)

lemma sint_inInt64: "inInt64 n \<Longrightarrow> sint (word_of_int n :: 64 word) = n"
  by (simp add: inInt64_def sint_sbintrunc' signed_take_bit_int_eq_self)

lemma channelMetrics_channels: "channelMetrics ''channels'' val c = []"
  by (simp add: channelMetrics_def Channel_fields_def)

lemma channelMetrics_total: "channelMetrics ''subscribers_total'' val c = []"
  by (simp add: channelMetrics_def Channel_fields_def)

lemma recordMetrics_total: "recordMetrics ''subscribers_total'' val ps = []"
  by (simp add: recordMetrics_def channelMetrics_total split: Value.splits option.splits)

lemma recordMetrics_channels:
  "recordMetrics ''channels'' val ps =
     (case Channels ps of
        I64 w \<Rightarrow> [\<lparr>desc = val, mvalue = float64 (sint w), labelValues = [''all'']\<rparr>]
      | Str s \<Rightarrow> [])"
  by (simp add: recordMetrics_def channelMetrics_channels split: Value.splits option.splits)

lemma samples_int64_channels:
  assumes "inInt64 n"
  shows "map sampleOf (recordMetrics ''channels'' val (int64Record n cs)) =
           [(fqName val, [''all''], float64 n)]"
  by (simp add: recordMetrics_channels int64Record_def sampleOf_def sint_inInt64 [OF assms])

lemma samples_int64_subscribers:
  assumes "\<forall>(name, p, s, u) \<in> set cs. inInt64 p \<and> inInt64 s \<and> inInt64 u"
  shows "map sampleOf (recordMetrics ''subscribers'' val (int64Record n cs)) =
           map (\<lambda>(name, p, s, u). (fqName val, [name], float64 u)) cs"
  unfolding recordMetrics_int64Record using assms
  by (induction cs)
     (auto simp: channelMetrics_def int64Channel_def Channel_fields_def sampleOf_def sint_inInt64)

lemma samples_int64_published:
  assumes "\<forall>(name, p, s, u) \<in> set cs. inInt64 p \<and> inInt64 s \<and> inInt64 u"
  shows "map sampleOf (recordMetrics ''published_messages'' val (int64Record n cs)) =
           map (\<lambda>(name, p, s, u). (fqName val, [name], float64 p)) cs"
  unfolding recordMetrics_int64Record using assms
  by (induction cs)
     (auto simp: channelMetrics_def int64Channel_def Channel_fields_def sampleOf_def sint_inInt64)

lemma samples_int64_stored:
  assumes "\<forall>(name, p, s, u) \<in> set cs. inInt64 p \<and> inInt64 s \<and> inInt64 u"
  shows "map sampleOf (recordMetrics ''stored_messages'' val (int64Record n cs)) =
           map (\<lambda>(name, p, s, u). (fqName val, [name], float64 s)) cs"
  unfolding recordMetrics_int64Record using assms
  by (induction cs)
     (auto simp: channelMetrics_def int64Channel_def Channel_fields_def sampleOf_def sint_inInt64)

lemma pushStreamMetrics_walk_ok:
  "list_all (\<lambda>(key, val). key \<noteq> ''channel'' \<and> length (variableLabels val) = 1) pushStreamMetrics"
  by (simp add: pushStreamMetrics_def newPushStreamMetrics_def nginxLabelNames_def)

lemma catalog_total:
  "map_of pushStreamMetrics ''subscribers_total'' =
     Some (newPushStreamMetrics ''subscribers_total''
             ''Total current number of connected subscribers on this server.'')"
  by (simp add: pushStreamMetrics_def)

lemmas scrape_eval =
  scrape_def scrapeDecoded_def scrapeRecord_def Decode_def selectedMetric_def
  pushStreamField_def channelInfo_def channelField_def MustNewConstMetric_def
  PushStream_fields_def Channel_fields_def pushStreamMember_def channelMember_def
  decodeSlot_def findField_def pushStreamTags_def channelTags_def NewPushStream_def
  zeroChannel_def zeroValue_def numberPayload_def numberChannel_def stringPayload_def
  stringChannel_def

text \<open>
  Claim C1 says that every sample equals the field it is taken from. The value sent is
  \<^verbatim>\<open>float64(valueField.Int())\<close> (line 181), and beyond \<open>2 ^ 53\<close> the conversion
  rounds: for the top-level count \<open>2 ^ 53 + 1\<close> the \<^verbatim>\<open>channels\<close> sample is
  \<open>2 ^ 53\<close>.
\<close>

theorem channels_sample_rounded_counterexample:
  "map_sum id (map_prod (map sampleOf) id)
     (snd (scrape NumberSchema
             \<lparr>totalScrapes = 0, selectedPushStreamMetrics = pushStreamMetrics\<rparr>
             (FetchOk (Doc (numberPayload 9007199254740993 [])))))
   = Inr ([(''nginx_push_stream_channels'', [''all''], 9007199254740992),
           (''nginx_push_stream_subscribers_total'', [''all''], 0)], 1)"
  by (simp add: scrape_eval pushStreamMetrics_def newPushStreamMetrics_def nginxLabelNames_def
      sampleOf_def BuildFQName_def namespace_def float64_rounds_down float64_exact)

text \<open>
  Claim C1, amended. Take a response that the \<^verbatim>\<open>int64\<close> version of the package
  decodes to the top-level count \<open>n\<close> and the channels \<open>cs\<close>, all counts within
  \<^verbatim>\<open>int64\<close>; the response of the number form with these counts is one. With every
  catalog key selected (the selected map visited in any order), the scrape returns 1
  and sends, as a multiset of (metric name, label values, value): one \<^verbatim>\<open>channels\<close>
  sample labelled \<^verbatim>\<open>all\<close> whose value is \<^verbatim>\<open>float64\<close> of the top-level count; for
  every channel one sample each of \<^verbatim>\<open>subscribers\<close>, \<^verbatim>\<open>published_messages\<close> and
  \<^verbatim>\<open>stored_messages\<close>, labelled with the channel name, whose value is
  \<^verbatim>\<open>float64\<close> of the field of that name; and one \<^verbatim>\<open>subscribers_total\<close> sample
  labelled \<^verbatim>\<open>all\<close>, whose value is \<^verbatim>\<open>float64\<close> of the \<^verbatim>\<open>int64\<close> sum of the
  subscriber fields. \<^verbatim>\<open>float64\<close> of a count is the count itself when its magnitude is
  at most \<open>2 ^ 53\<close>. At the response of the end-to-end scenario these are the eight
  samples the scenario lists.
\<close>

theorem scrape_number_payload:
  assumes n: "inInt64 n"
    and cs: "\<forall>(name, p, s, u) \<in> set cs. inInt64 p \<and> inInt64 s \<and> inInt64 u"
    and sel: "mset (selectedPushStreamMetrics e) = mset pushStreamMetrics"
    and dec: "Decode NumberSchema b = (Some (int64Record n cs), None)"
  shows "Decode NumberSchema (Doc (numberPayload n cs)) = (Some (int64Record n cs), None)
    \<and> (\<exists>ms. scrape NumberSchema e (FetchOk b) =
                 (e\<lparr>totalScrapes := totalScrapes e + 1\<rparr>, Inr (ms, 1))
          \<and> mset (map sampleOf ms) =
              {#(''nginx_push_stream_channels'', [''all''], float64 n)#}
              + mset (map (\<lambda>(name, p, s, u).
                             (''nginx_push_stream_subscribers'', [name], float64 u)) cs)
              + mset (map (\<lambda>(name, p, s, u).
                             (''nginx_push_stream_published_messages'', [name], float64 p)) cs)
              + mset (map (\<lambda>(name, p, s, u).
                             (''nginx_push_stream_stored_messages'', [name], float64 s)) cs)
              + {#(''nginx_push_stream_subscribers_total'', [''all''],
                   float64 (sint (word_of_int (\<Sum>(name, p, s, u)\<leftarrow>cs. u) :: 64 word)))#})
    \<and> (\<forall>x. \<bar>x\<bar> \<le> 2 ^ 53 \<longrightarrow> float64 x = x)"
proof (intro conjI)
  show "Decode NumberSchema (Doc (numberPayload n cs)) = (Some (int64Record n cs), None)"
    by (rule Decode_numberPayload [OF n cs])
next
  show "\<forall>x. \<bar>x\<bar> \<le> 2 ^ 53 \<longrightarrow> float64 x = x"
    using float64_exact by blast
next
  let ?sel = "selectedPushStreamMetrics e"
  let ?ps = "int64Record n cs"
  let ?d = "newPushStreamMetrics ''subscribers_total''
              ''Total current number of connected subscribers on this server.''"
  let ?f = "\<lambda>(key, val). recordMetrics key val ?ps"
  from sel have set_eq: "set ?sel = set pushStreamMetrics" by (rule mset_eq_setD)
  from sel have "mset (map fst ?sel) = mset (map fst pushStreamMetrics)"
    by (metis mset_map)
  then have dist: "distinct (map fst ?sel)"
    using pushStreamMetrics_distinct mset_eq_imp_distinct_iff by blast
  from pushStreamMetrics_walk_ok set_eq
  have ok: "list_all (\<lambda>(key, val). walkable key ?ps \<and> length (variableLabels val) = 1) ?sel"
    by (auto simp: list_all_iff walkable_int64Record)
  have "(''subscribers_total'', ?d) \<in> set pushStreamMetrics"
    using catalog_total by (rule map_of_SomeD)
  with set_eq dist have tot: "map_of ?sel ''subscribers_total'' = Some ?d"
    by simp
  let ?ms = "concat (map ?f ?sel)
             @ [\<lparr>desc = ?d, mvalue = float64 (sint (recordTotal ''subscribers_total'' ?ps)),
                 labelValues = [''all'']\<rparr>]"
  have run: "scrape NumberSchema e (FetchOk b) =
               (e\<lparr>totalScrapes := totalScrapes e + 1\<rparr>, Inr (?ms, 1))"
    by (simp add: scrape_def scrapeDecoded_def dec scrapeRecord_ok [OF ok dist tot])
  have "mset (map sampleOf (concat (map ?f ?sel))) =
          sum_mset (image_mset (\<lambda>x. mset (map sampleOf (?f x))) (mset ?sel))"
    by (simp add: map_concat mset_concat_map comp_def flip: mset_map)
  also have "\<dots> = sum_mset (image_mset (\<lambda>x. mset (map sampleOf (?f x))) (mset pushStreamMetrics))"
    by (simp only: sel)
  also have "\<dots> =
      mset (map sampleOf (recordMetrics ''channels''
             (newPushStreamMetrics ''channels''
                ''Current number of existing channels on this server.'') ?ps))
      + mset (map sampleOf (recordMetrics ''subscribers''
             (newPushStreamMetrics ''subscribers''
                ''Current number of connected subscribers on channels on this server.'') ?ps))
      + mset (map sampleOf (recordMetrics ''published_messages''
             (newPushStreamMetrics ''published_messages''
                ''Current number of existing channels on this server.'') ?ps))
      + mset (map sampleOf (recordMetrics ''stored_messages''
             (newPushStreamMetrics ''stored_messages''
                ''Current number of existing channels on this server.'') ?ps))
      + mset (map sampleOf (recordMetrics ''subscribers_total'' ?d ?ps))"
    by (simp add: pushStreamMetrics_def del: mset_map)
  also have "\<dots> =
              {#(''nginx_push_stream_channels'', [''all''], float64 n)#}
              + mset (map (\<lambda>(name, p, s, u).
                             (''nginx_push_stream_subscribers'', [name], float64 u)) cs)
              + mset (map (\<lambda>(name, p, s, u).
                             (''nginx_push_stream_published_messages'', [name], float64 p)) cs)
              + mset (map (\<lambda>(name, p, s, u).
                             (''nginx_push_stream_stored_messages'', [name], float64 s)) cs)"
    unfolding samples_int64_channels [OF n] samples_int64_subscribers [OF cs]
      samples_int64_published [OF cs] samples_int64_stored [OF cs] recordMetrics_total
    by (simp add: newPushStreamMetrics_def BuildFQName_def namespace_def)
  finally have "mset (map sampleOf ?ms) =
              {#(''nginx_push_stream_channels'', [''all''], float64 n)#}
              + mset (map (\<lambda>(name, p, s, u).
                             (''nginx_push_stream_subscribers'', [name], float64 u)) cs)
              + mset (map (\<lambda>(name, p, s, u).
                             (''nginx_push_stream_published_messages'', [name], float64 p)) cs)
              + mset (map (\<lambda>(name, p, s, u).
                             (''nginx_push_stream_stored_messages'', [name], float64 s)) cs)
              + {#(''nginx_push_stream_subscribers_total'', [''all''],
                   float64 (sint (word_of_int (\<Sum>(name, p, s, u)\<leftarrow>cs. u) :: 64 word)))#}"
    by (simp add: sampleOf_def recordTotal_int64Record newPushStreamMetrics_def
        BuildFQName_def namespace_def)
  with run show "\<exists>ms. scrape NumberSchema e (FetchOk b) =
                 (e\<lparr>totalScrapes := totalScrapes e + 1\<rparr>, Inr (ms, 1))
          \<and> mset (map sampleOf ms) =
              {#(''nginx_push_stream_channels'', [''all''], float64 n)#}
              + mset (map (\<lambda>(name, p, s, u).
                             (''nginx_push_stream_subscribers'', [name], float64 u)) cs)
              + mset (map (\<lambda>(name, p, s, u).
                             (''nginx_push_stream_published_messages'', [name], float64 p)) cs)
              + mset (map (\<lambda>(name, p, s, u).
                             (''nginx_push_stream_stored_messages'', [name], float64 s)) cs)
              + {#(''nginx_push_stream_subscribers_total'', [''all''],
                   float64 (sint (word_of_int (\<Sum>(name, p, s, u)\<leftarrow>cs. u) :: 64 word)))#}"
    by blast
qed

theorem scrape_number_payload_witness:
  "numberPayload 2 [(''a'', 10, 3, 5), (''b'', 1, 0, 2)] =
     JObj [(''channels'', JInt 2),
           (''infos'',
            JArr [JObj [(''channel'', JStr ''a''), (''published_messages'', JInt 10),
                        (''stored_messages'', JInt 3), (''subscribers'', JInt 5)],
                  JObj [(''channel'', JStr ''b''), (''published_messages'', JInt 1),
                        (''stored_messages'', JInt 0), (''subscribers'', JInt 2)]])]
   \<and> inInt64 2 \<and> inInt64 10 \<and> inInt64 3 \<and> inInt64 5 \<and> inInt64 1 \<and> inInt64 0
   \<and> mset (filterMetrics nginxMetricFields_default) = mset pushStreamMetrics
   \<and> Decode NumberSchema (Doc (numberPayload 2 [(''a'', 10, 3, 5), (''b'', 1, 0, 2)])) =
       (Some (int64Record 2 [(''a'', 10, 3, 5), (''b'', 1, 0, 2)]), None)
   \<and> (\<exists>ms. scrape NumberSchema
               \<lparr>totalScrapes = 0,
                selectedPushStreamMetrics = filterMetrics nginxMetricFields_default\<rparr>
               (FetchOk (Doc (numberPayload 2 [(''a'', 10, 3, 5), (''b'', 1, 0, 2)]))) =
               (\<lparr>totalScrapes = 1,
                 selectedPushStreamMetrics = filterMetrics nginxMetricFields_default\<rparr>,
                Inr (ms, 1))
          \<and> mset (map sampleOf ms) =
              {#(''nginx_push_stream_channels'', [''all''], 2),
                (''nginx_push_stream_subscribers'', [''a''], 5),
                (''nginx_push_stream_subscribers'', [''b''], 2),
                (''nginx_push_stream_published_messages'', [''a''], 10),
                (''nginx_push_stream_published_messages'', [''b''], 1),
                (''nginx_push_stream_stored_messages'', [''a''], 3),
                (''nginx_push_stream_stored_messages'', [''b''], 0),
                (''nginx_push_stream_subscribers_total'', [''all''], 7)#})"
proof -
  let ?e = "\<lparr>totalScrapes = 0,
             selectedPushStreamMetrics = filterMetrics nginxMetricFields_default\<rparr>"
  let ?cs = "[(''a'', 10::int, 3::int, 5::int), (''b'', 1, 0, 2)]"
  have d: "nginxMetricFields_default =
             ''channels,published_messages,stored_messages,subscribers,subscribers_total''"
    by (simp add: nginxMetricFields_default_def metrics_String_def pushStreamMetrics_def)
  have sel: "filterMetrics nginxMetricFields_default = pushStreamMetrics"
    by (simp add: filterMetrics_filter d pushStreamMetrics_def)
  have n: "inInt64 2" by (simp add: inInt64_def)
  have cs: "\<forall>(name, p, s, u) \<in> set ?cs. inInt64 p \<and> inInt64 s \<and> inInt64 u"
    by (simp add: inInt64_def)
  have m: "mset (selectedPushStreamMetrics ?e) = mset pushStreamMetrics"
    by (simp add: sel)
  have dec: "Decode NumberSchema (Doc (numberPayload 2 ?cs)) = (Some (int64Record 2 ?cs), None)"
    by (rule Decode_numberPayload [OF n cs])
  have doc: "numberPayload 2 ?cs =
     JObj [(''channels'', JInt 2),
           (''infos'',
            JArr [JObj [(''channel'', JStr ''a''), (''published_messages'', JInt 10),
                        (''stored_messages'', JInt 3), (''subscribers'', JInt 5)],
                  JObj [(''channel'', JStr ''b''), (''published_messages'', JInt 1),
                        (''stored_messages'', JInt 0), (''subscribers'', JInt 2)]])]"
    by (simp add: numberPayload_def numberChannel_def)
  from scrape_number_payload [OF n cs m dec] obtain ms where
    run: "scrape NumberSchema ?e (FetchOk (Doc (numberPayload 2 ?cs))) =
            (?e\<lparr>totalScrapes := totalScrapes ?e + 1\<rparr>, Inr (ms, 1))"
    and samples: "mset (map sampleOf ms) =
              {#(''nginx_push_stream_channels'', [''all''], float64 2)#}
              + mset (map (\<lambda>(name, p, s, u).
                             (''nginx_push_stream_subscribers'', [name], float64 u)) ?cs)
              + mset (map (\<lambda>(name, p, s, u).
                             (''nginx_push_stream_published_messages'', [name], float64 p)) ?cs)
              + mset (map (\<lambda>(name, p, s, u).
                             (''nginx_push_stream_stored_messages'', [name], float64 s)) ?cs)
              + {#(''nginx_push_stream_subscribers_total'', [''all''],
                   float64 (sint (word_of_int (\<Sum>(name, p, s, u)\<leftarrow>?cs. u) :: 64 word)))#}"
    by (elim exE conjE)
  have run': "scrape NumberSchema ?e (FetchOk (Doc (numberPayload 2 ?cs))) =
            (\<lparr>totalScrapes = 1,
              selectedPushStreamMetrics = filterMetrics nginxMetricFields_default\<rparr>, Inr (ms, 1))"
    using run by simp
  have samples': "mset (map sampleOf ms) =
              {#(''nginx_push_stream_channels'', [''all''], 2),
                (''nginx_push_stream_subscribers'', [''a''], 5),
                (''nginx_push_stream_subscribers'', [''b''], 2),
                (''nginx_push_stream_published_messages'', [''a''], 10),
                (''nginx_push_stream_published_messages'', [''b''], 1),
                (''nginx_push_stream_stored_messages'', [''a''], 3),
                (''nginx_push_stream_stored_messages'', [''b''], 0),
                (''nginx_push_stream_subscribers_total'', [''all''], 7)#}"
    unfolding samples by (simp add: float64_exact)
  show ?thesis
  proof (intro conjI)
    show "\<exists>ms. scrape NumberSchema ?e (FetchOk (Doc (numberPayload 2 ?cs))) =
            (\<lparr>totalScrapes = 1,
              selectedPushStreamMetrics = filterMetrics nginxMetricFields_default\<rparr>, Inr (ms, 1))
          \<and> mset (map sampleOf ms) =
              {#(''nginx_push_stream_channels'', [''all''], 2),
                (''nginx_push_stream_subscribers'', [''a''], 5),
                (''nginx_push_stream_subscribers'', [''b''], 2),
                (''nginx_push_stream_published_messages'', [''a''], 10),
                (''nginx_push_stream_published_messages'', [''b''], 1),
                (''nginx_push_stream_stored_messages'', [''a''], 3),
                (''nginx_push_stream_stored_messages'', [''b''], 0),
                (''nginx_push_stream_subscribers_total'', [''all''], 7)#}"
      using run' samples' by (intro exI conjI)
    show "Decode NumberSchema (Doc (numberPayload 2 ?cs)) = (Some (int64Record 2 ?cs), None)"
      by (rule dec)
  qed (simp_all add: doc sel inInt64_def)
qed

section \<open>The aggregate \<^verbatim>\<open>subscribers_total\<close>\<close>

lemma desc_channelMetrics: "list_all (\<lambda>m. desc m = val) (channelMetrics key val c)"
  by (simp add: channelMetrics_def Channel_fields_def split: Value.splits)

lemma desc_recordMetrics: "list_all (\<lambda>m. desc m = val) (recordMetrics key val ps)"
proof -
  have "list_all (\<lambda>m. desc m = val)
          (concat (map (\<lambda>i. case i of None \<Rightarrow> [] | Some c \<Rightarrow> channelMetrics key val c) is))" for "is"
    by (induction "is") (simp_all add: desc_channelMetrics split: option.splits)
  then show ?thesis
    by (simp add: recordMetrics_def split: Value.splits)
qed

lemma catalog_total_name:
  "(key, val) \<in> set pushStreamMetrics \<Longrightarrow>
   fqName val = ''nginx_push_stream_subscribers_total'' \<Longrightarrow> key = ''subscribers_total''"
  by (auto simp: pushStreamMetrics_def newPushStreamMetrics_def BuildFQName_def namespace_def)

lemma catalog_total_desc:
  "(''subscribers_total'', d) \<in> set pushStreamMetrics \<Longrightarrow>
   d = newPushStreamMetrics ''subscribers_total''
         ''Total current number of connected subscribers on this server.''"
  by (auto simp: pushStreamMetrics_def)

lemma filter_total_recordMetrics:
  assumes "(key, val) \<in> set pushStreamMetrics"
  shows "filter (\<lambda>m. fqName (desc m) = ''nginx_push_stream_subscribers_total'')
           (recordMetrics key val ps) = []"
proof (cases "key = ''subscribers_total''")
  case True
  then show ?thesis by (simp add: recordMetrics_total)
next
  case False
  with assms have "fqName val \<noteq> ''nginx_push_stream_subscribers_total''"
    using catalog_total_name by blast
  then have "list_all (\<lambda>m. fqName (desc m) \<noteq> ''nginx_push_stream_subscribers_total'')
               (recordMetrics key val ps)"
    using desc_recordMetrics [of val key ps] by (simp add: list_all_iff)
  then show ?thesis by (simp add: filter_empty_conv list_all_iff)
qed

lemma filter_total_walk:
  assumes "set sel \<subseteq> set pushStreamMetrics"
  shows "filter (\<lambda>m. fqName (desc m) = ''nginx_push_stream_subscribers_total'')
           (concat (map (\<lambda>(key, val). recordMetrics key val ps) sel)) = []"
  using assms
proof (induction sel)
  case Nil
  then show ?case by simp
next
  case (Cons kv sel)
  obtain key val where kv: "kv = (key, val)" by (cases kv)
  with Cons.prems have "(key, val) \<in> set pushStreamMetrics" by simp
  then have "filter (\<lambda>m. fqName (desc m) = ''nginx_push_stream_subscribers_total'')
               (recordMetrics key val ps) = []"
    by (rule filter_total_recordMetrics)
  with Cons kv show ?case by simp
qed

lemma default_sel: "filterMetrics nginxMetricFields_default = pushStreamMetrics"
proof -
  have d: "nginxMetricFields_default =
             ''channels,published_messages,stored_messages,subscribers,subscribers_total''"
    by (simp add: nginxMetricFields_default_def metrics_String_def pushStreamMetrics_def)
  show ?thesis by (simp add: filterMetrics_filter d pushStreamMetrics_def)
qed

text \<open>
  When \<^verbatim>\<open>subscribers_total\<close> is selected, the walk does not panic on the record for
  any selected key (no element of \<^verbatim>\<open>Infos\<close> is \<^verbatim>\<open>nil\<close>, and a field named by a
  selected key is an \<^verbatim>\<open>int64\<close>) and the selection is a part of the catalog, then
  extraction returns 1 and exactly one of the metrics it sends has the name of
  \<^verbatim>\<open>subscribers_total\<close>: its label is \<^verbatim>\<open>all\<close> and its value is \<^verbatim>\<open>float64\<close> of the
  \<^verbatim>\<open>int64\<close> sum of what the subscriber fields contribute.
\<close>

lemma subscribers_total_selected:
  assumes dist: "distinct (map fst sel)"
    and sub: "set sel \<subseteq> set pushStreamMetrics"
    and tot: "''subscribers_total'' \<in> fst ` set sel"
    and walk: "list_all (\<lambda>(key, val). walkable key ps) sel"
  shows "\<exists>ms. scrapeRecord sel (Some ps) = Inr (ms, 1)
          \<and> filter (\<lambda>m. fqName (desc m) = ''nginx_push_stream_subscribers_total'') ms =
              [\<lparr>desc = newPushStreamMetrics ''subscribers_total''
                          ''Total current number of connected subscribers on this server.'',
                mvalue = float64 (sint (\<Sum>i\<leftarrow>Infos ps.
                                 case i of None \<Rightarrow> 0 | Some c \<Rightarrow> subscriberCount (Subscribers c))),
                labelValues = [''all'']\<rparr>]"
proof -
  let ?d = "newPushStreamMetrics ''subscribers_total''
              ''Total current number of connected subscribers on this server.''"
  let ?f = "\<lambda>(key, val). recordMetrics key val ps"
  from pushStreamMetrics_walk_ok sub walk
  have ok: "list_all (\<lambda>(key, val). walkable key ps \<and> length (variableLabels val) = 1) sel"
    by (auto simp: list_all_iff)
  from tot obtain d where mem: "(''subscribers_total'', d) \<in> set sel" by auto
  with sub have "d = ?d" using catalog_total_desc by blast
  with mem dist have look: "map_of sel ''subscribers_total'' = Some ?d" by simp
  let ?t = "\<lparr>desc = ?d, mvalue = float64 (sint (recordTotal ''subscribers_total'' ps)),
             labelValues = [''all'']\<rparr>"
  have run: "scrapeRecord sel (Some ps) = Inr (concat (map ?f sel) @ [?t], 1)"
    by (rule scrapeRecord_ok [OF ok dist look])
  have name: "fqName (desc ?t) = ''nginx_push_stream_subscribers_total''"
    by (simp add: newPushStreamMetrics_def BuildFQName_def namespace_def)
  have "filter (\<lambda>m. fqName (desc m) = ''nginx_push_stream_subscribers_total'')
          (concat (map ?f sel) @ [?t]) = [?t]"
    unfolding filter_append filter_total_walk [OF sub] using name by simp
  with run show ?thesis by (simp add: recordTotal_def)
qed

text \<open>
  Claim C2 (\<^verbatim>\<open>subscribers_total\<close> is sent exactly once under every selection, also
  one that does not contain it) does not hold of the code. Line 213 sends the metric
  unconditionally, but builds it from the entry \<^verbatim>\<open>subscribers_total\<close> of the
  selected map: when the selection does not contain that key the entry is \<^verbatim>\<open>nil\<close>
  and \<^verbatim>\<open>MustNewConstMetric\<close> panics. So for every response that decodes and every
  selection without \<^verbatim>\<open>subscribers_total\<close>, the scrape ends in a panic, and so
  does \<^verbatim>\<open>Collect\<close>.
\<close>

theorem subscribers_total_unselected_panics:
  assumes unselected: "map_of (selectedPushStreamMetrics e) ''subscribers_total'' = None"
    and decoded: "snd (Decode sch b) = None"
  shows "\<exists>p ch. snd (scrape sch e (FetchOk b)) = Inl (p, ch)
           \<and> snd (Collect sch e (FetchOk b)) = Inl (p, ch)"
proof -
  obtain ps where d: "Decode sch b = (ps, None)"
    using decoded by (cases "Decode sch b") simp
  have "\<exists>p ch. scrapeRecord (selectedPushStreamMetrics e) ps = Inl (p, ch)"
  proof (cases "forEach (selectedMetric ps) (selectedPushStreamMetrics e) ([], 0)")
    case (Inl c)
    then show ?thesis by (cases c) (simp add: scrapeRecord_def)
  next
    case (Inr st)
    then show ?thesis
      by (cases st) (simp add: scrapeRecord_def unselected MustNewConstMetric_def)
  qed
  then show ?thesis
    by (auto simp: scrape_def scrapeDecoded_def Collect_def d Let_def)
qed

theorem subscribers_total_unselected_panics_witness:
  "map_of (filterMetrics ''channels'') ''subscribers_total'' = None
   \<and> snd (Decode NumberSchema
            (Doc (numberPayload 2 [(''a'', 10, 3, 5), (''b'', 1, 0, 2)]))) = None
   \<and> snd (scrape NumberSchema
            \<lparr>totalScrapes = 0, selectedPushStreamMetrics = filterMetrics ''channels''\<rparr>
            (FetchOk (Doc (numberPayload 2 [(''a'', 10, 3, 5), (''b'', 1, 0, 2)]))))
       = Inl (NilDescriptor,
              [\<lparr>desc = newPushStreamMetrics ''channels''
                         ''Current number of existing channels on this server.'',
                mvalue = 2, labelValues = [''all'']\<rparr>])
   \<and> snd (Collect NumberSchema
            \<lparr>totalScrapes = 0, selectedPushStreamMetrics = filterMetrics ''channels''\<rparr>
            (FetchOk (Doc (numberPayload 2 [(''a'', 10, 3, 5), (''b'', 1, 0, 2)]))))
       = Inl (NilDescriptor,
              [\<lparr>desc = newPushStreamMetrics ''channels''
                         ''Current number of existing channels on this server.'',
                mvalue = 2, labelValues = [''all'']\<rparr>])"
  using subscribers_total_unselected_panics
    [of "\<lparr>totalScrapes = 0, selectedPushStreamMetrics = filterMetrics ''channels''\<rparr>"
        NumberSchema "Doc (numberPayload 2 [(''a'', 10, 3, 5), (''b'', 1, 0, 2)])"]
  by (simp add: scrape_eval Collect_def filterMetrics_def pushStreamMetrics_def
      newPushStreamMetrics_def nginxLabelNames_def float64_exact)

lemma decodeSlot_stringChannel:
  "decodeSlot StringSchema (stringChannel (name, p, s, u)) None None =
     (Some (strChannel (name, p, s, u)), None)"
  by (simp add: decodeSlot_def stringChannel_def channelMember_def findField_def
      channelTags_def zeroChannel_def zeroValue_def strChannel_def)

lemma decodeElems_stringChannel:
  "decodeElems StringSchema (map stringChannel cs) (length b) b None =
     (b @ map (\<lambda>c. Some (strChannel c)) cs, None)"
proof (induction cs arbitrary: b)
  case Nil
  then show ?case by simp
next
  case (Cons c cs)
  obtain name p s u where c: "c = (name, p, s, u)" by (cases c)
  from Cons.IH [of "b @ [Some (strChannel c)]"] show ?case
    by (simp add: c decodeSlot_stringChannel)
qed

lemma Decode_stringPayload:
  "Decode StringSchema (Doc (stringPayload t cs)) = (Some (strRecord t cs), None)"
  using decodeElems_stringChannel [of cs "[]"]
  by (simp add: Decode_def stringPayload_def pushStreamMember_def findField_def
      pushStreamTags_def NewPushStream_def zeroValue_def strRecord_def)

lemma walkable_strRecord_channels: "walkable ''channels'' (strRecord t cs)"
  by (simp add: walkable_def strRecord_def list_all_iff intAt_def Channel_fields_def)

lemma walkable_strRecord_total: "walkable ''subscribers_total'' (strRecord t cs)"
  by (simp add: walkable_def strRecord_def list_all_iff intAt_def Channel_fields_def)

lemma recordTotal_strRecord:
  "recordTotal ''subscribers_total'' (strRecord t cs) =
     (\<Sum>(name, p, s, u)\<leftarrow>cs. case Atoi u of Some k \<Rightarrow> word_of_int k | None \<Rightarrow> 0)"
  by (induction cs)
     (auto simp: recordTotal_def strRecord_def strChannel_def subscriberCount_def)

lemma sum_wellformed:
  "map (\<lambda>(name, p, s, u). Atoi u) cs = map Some vs \<Longrightarrow>
   (\<Sum>(name, p, s, u)\<leftarrow>cs. case Atoi u of Some k \<Rightarrow> word_of_int k | None \<Rightarrow> 0) =
     (word_of_int (sum_list vs) :: 64 word)"
proof (induction cs arbitrary: vs)
  case Nil
  then show ?case by simp
next
  case (Cons c cs)
  from Cons.prems obtain v vs' where vs: "vs = v # vs'" by (cases vs) auto
  obtain name p s u where c: "c = (name, p, s, u)" by (cases c)
  from Cons.prems vs c have a: "Atoi u = Some v"
    and rest: "map (\<lambda>(name, p, s, u). Atoi u) cs = map Some vs'" by simp_all
  from Cons.IH [OF rest] a show ?case by (simp add: vs c)
qed

text \<open>
  Claim C4 says that a subscriber string which is no non-negative integer contributes
  0, and that the scrape succeeds. With only \<^verbatim>\<open>subscribers_total\<close> selected, the
  string \<^verbatim>\<open>-5\<close> contributes \<open>-5\<close>: \<^verbatim>\<open>Atoi\<close> reads signed integers, and the
  total of the channels \<^verbatim>\<open>-5\<close> and \<^verbatim>\<open>2\<close> is \<open>-3\<close>, not 2. And with every
  catalog key selected, a response with the subscriber string \<^verbatim>\<open>x\<close> ends in a
  panic, not in success: line 191 calls \<^verbatim>\<open>Int()\<close> on the string field of the first
  selected per-channel key.
\<close>

theorem atoi_signed_subscriber_counterexample:
  "snd (scrape StringSchema
          \<lparr>totalScrapes = 0, selectedPushStreamMetrics = filterMetrics ''subscribers_total''\<rparr>
          (FetchOk (Doc (stringPayload ''2''
             [(''a'', ''10'', ''3'', ''-5''), (''b'', ''1'', ''0'', ''2'')]))))
     = Inr ([\<lparr>desc = newPushStreamMetrics ''subscribers_total''
                        ''Total current number of connected subscribers on this server.'',
               mvalue = - 3, labelValues = [''all'']\<rparr>], 1)
   \<and> snd (scrape StringSchema
          \<lparr>totalScrapes = 0, selectedPushStreamMetrics = pushStreamMetrics\<rparr>
          (FetchOk (Doc (stringPayload ''2''
             [(''a'', ''10'', ''3'', ''x''), (''b'', ''1'', ''0'', ''2'')]))))
     = Inl (IntOfNonInt, [])"
  by (simp add: scrape_eval filterMetrics_def pushStreamMetrics_def newPushStreamMetrics_def
      nginxLabelNames_def Atoi_def is_digit_def digits_value_def float64_exact)

text \<open>
  Claim C4, amended. For the string version of the package, a selection of distinct
  catalog entries that contains \<^verbatim>\<open>subscribers_total\<close> and otherwise at most
  \<^verbatim>\<open>channels\<close>, and a response of the string form in which \<^verbatim>\<open>Atoi\<close> rejects the
  subscriber string of one channel and reads the integers \<open>vs\<close> from those of the
  other channels: the scrape returns 1 and sends one metric, \<^verbatim>\<open>subscribers_total\<close>
  labelled \<^verbatim>\<open>all\<close>, whose value is \<^verbatim>\<open>float64\<close> of the sum of \<open>vs\<close> in \<^verbatim>\<open>int64\<close>
  arithmetic; the rejected channel contributes 0.
\<close>

theorem scrape_string_bad_subscriber:
  assumes dist: "distinct (map fst (selectedPushStreamMetrics e))"
    and sub: "set (selectedPushStreamMetrics e) \<subseteq> set pushStreamMetrics"
    and tot: "''subscribers_total'' \<in> fst ` set (selectedPushStreamMetrics e)"
    and keys: "fst ` set (selectedPushStreamMetrics e) \<subseteq> {''channels'', ''subscribers_total''}"
    and bad: "Atoi ub = None"
    and good: "map (\<lambda>(name, p, s, u). Atoi u) (pre @ post) = map Some vs"
  shows "scrape StringSchema e
           (FetchOk (Doc (stringPayload t (pre @ (nb, pb, sb, ub) # post)))) =
           (e\<lparr>totalScrapes := totalScrapes e + 1\<rparr>,
            Inr ([\<lparr>desc = newPushStreamMetrics ''subscribers_total''
                           ''Total current number of connected subscribers on this server.'',
                   mvalue = float64 (sint (word_of_int (sum_list vs) :: 64 word)),
                   labelValues = [''all'']\<rparr>], 1))"
proof -
  let ?sel = "selectedPushStreamMetrics e"
  let ?cs = "pre @ (nb, pb, sb, ub) # post"
  let ?ps = "strRecord t ?cs"
  let ?d = "newPushStreamMetrics ''subscribers_total''
              ''Total current number of connected subscribers on this server.''"
  let ?f = "\<lambda>(key, val). recordMetrics key val ?ps"
  have w: "walkable key ?ps" if "(key, val) \<in> set ?sel" for key val
  proof -
    from that keys have "key = ''channels'' \<or> key = ''subscribers_total''" by force
    then show ?thesis
      using walkable_strRecord_channels walkable_strRecord_total by blast
  qed
  with pushStreamMetrics_walk_ok sub
  have ok: "list_all (\<lambda>(key, val). walkable key ?ps \<and> length (variableLabels val) = 1) ?sel"
    by (auto simp: list_all_iff)
  from tot obtain d where mem: "(''subscribers_total'', d) \<in> set ?sel" by auto
  with sub have "d = ?d" using catalog_total_desc by blast
  with mem dist have look: "map_of ?sel ''subscribers_total'' = Some ?d" by simp
  have none: "?f kv = []" if "kv \<in> set ?sel" for kv
  proof -
    obtain key val where kv: "kv = (key, val)" by (cases kv)
    with that keys have "key = ''channels'' \<or> key = ''subscribers_total''" by force
    then show ?thesis
      by (auto simp: kv recordMetrics_channels recordMetrics_total strRecord_def)
  qed
  then have walk: "concat (map ?f ?sel) = []" by simp
  have "(\<Sum>(name, p, s, u)\<leftarrow>?cs. case Atoi u of Some k \<Rightarrow> word_of_int k | None \<Rightarrow> 0) =
          (\<Sum>(name, p, s, u)\<leftarrow>pre @ post. case Atoi u of Some k \<Rightarrow> word_of_int k | None \<Rightarrow> (0 :: 64 word))"
    by (simp add: bad)
  then have total: "recordTotal ''subscribers_total'' ?ps = word_of_int (sum_list vs)"
    by (simp only: recordTotal_strRecord sum_wellformed [OF good])
  show ?thesis
    by (simp add: scrape_def scrapeDecoded_def Decode_stringPayload
        scrapeRecord_ok [OF ok dist look] walk total)
qed

theorem scrape_string_bad_subscriber_witness:
  "distinct (map fst (filterMetrics ''subscribers_total''))
   \<and> set (filterMetrics ''subscribers_total'') \<subseteq> set pushStreamMetrics
   \<and> ''subscribers_total'' \<in> fst ` set (filterMetrics ''subscribers_total'')
   \<and> fst ` set (filterMetrics ''subscribers_total'') \<subseteq> {''channels'', ''subscribers_total''}
   \<and> Atoi ''x'' = None
   \<and> map (\<lambda>(name, p, s, u). Atoi u) ([(''a'', ''10'', ''3'', ''5'')] @ [(''c'', ''4'', ''4'', ''2'')])
       = map Some [5, 2]
   \<and> scrape StringSchema
         \<lparr>totalScrapes = 0, selectedPushStreamMetrics = filterMetrics ''subscribers_total''\<rparr>
         (FetchOk (Doc (stringPayload ''3''
            ([(''a'', ''10'', ''3'', ''5'')] @ (''b'', ''1'', ''0'', ''x'') # [(''c'', ''4'', ''4'', ''2'')])))) =
       (\<lparr>totalScrapes = 1, selectedPushStreamMetrics = filterMetrics ''subscribers_total''\<rparr>,
        Inr ([\<lparr>desc = newPushStreamMetrics ''subscribers_total''
                       ''Total current number of connected subscribers on this server.'',
               mvalue = 7, labelValues = [''all'']\<rparr>], 1))"
proof -
  let ?e = "\<lparr>totalScrapes = 0, selectedPushStreamMetrics = filterMetrics ''subscribers_total''\<rparr>"
  have sel: "filterMetrics ''subscribers_total'' =
      [(''subscribers_total'',
          newPushStreamMetrics ''subscribers_total''
            ''Total current number of connected subscribers on this server.'')]"
    by (simp add: filterMetrics_def pushStreamMetrics_def)
  have h1: "distinct (map fst (selectedPushStreamMetrics ?e))" by (simp add: sel)
  have h2: "set (selectedPushStreamMetrics ?e) \<subseteq> set pushStreamMetrics"
    by (simp add: sel pushStreamMetrics_def)
  have h3: "''subscribers_total'' \<in> fst ` set (selectedPushStreamMetrics ?e)" by (simp add: sel)
  have h4: "fst ` set (selectedPushStreamMetrics ?e) \<subseteq> {''channels'', ''subscribers_total''}"
    by (simp add: sel)
  have h5: "Atoi ''x'' = None" by (simp add: Atoi_def is_digit_def)
  have h6: "map (\<lambda>(name, p, s, u). Atoi u) ([(''a'', ''10'', ''3'', ''5'')] @ [(''c'', ''4'', ''4'', ''2'')])
       = map Some [5, 2]"
    by (simp add: Atoi_def is_digit_def digits_value_def)
  have v: "float64 (sint (word_of_int (sum_list [5, 2]) :: 64 word)) = 7"
    by (simp add: float64_exact)
  from scrape_string_bad_subscriber [OF h1 h2 h3 h4 h5 h6, of "''3''" "''b''" "''1''" "''0''"]
  have "scrape StringSchema ?e
         (FetchOk (Doc (stringPayload ''3''
            ([(''a'', ''10'', ''3'', ''5'')] @ (''b'', ''1'', ''0'', ''x'') # [(''c'', ''4'', ''4'', ''2'')])))) =
       (\<lparr>totalScrapes = 1, selectedPushStreamMetrics = filterMetrics ''subscribers_total''\<rparr>,
        Inr ([\<lparr>desc = newPushStreamMetrics ''subscribers_total''
                       ''Total current number of connected subscribers on this server.'',
               mvalue = 7, labelValues = [''all'']\<rparr>], 1))"
    unfolding v by simp
  with h1 h2 h3 h4 h5 h6 show ?thesis by simp
qed

section \<open>The string version of the package\<close>

text \<open>
  Claim C3 (schema transparency) does not hold of the code. With the string version
  of the package and every catalog key selected, the scenario response in string form
  ends in a panic: line 191 calls \<^verbatim>\<open>Int()\<close> on a string field, where the
  aggregate path of lines 195 to 205 switches on the type. The \<^verbatim>\<open>int64\<close> version
  rejects the same response with a decode error and sends nothing. And for a response
  without channels the string version sends no \<^verbatim>\<open>channels\<close> sample, because the
  type switch of line 178 has no case for a string, where the number pipeline sends
  \<^verbatim>\<open>channels\<close> with the value 2.
\<close>

theorem string_schema_not_transparent:
  "snd (scrape StringSchema
          \<lparr>totalScrapes = 0, selectedPushStreamMetrics = pushStreamMetrics\<rparr>
          (FetchOk (Doc (stringPayload ''2''
             [(''a'', ''10'', ''3'', ''5''), (''b'', ''1'', ''0'', ''2'')]))))
     = Inl (IntOfNonInt, [])
   \<and> snd (scrape NumberSchema
          \<lparr>totalScrapes = 0, selectedPushStreamMetrics = pushStreamMetrics\<rparr>
          (FetchOk (Doc (stringPayload ''2''
             [(''a'', ''10'', ''3'', ''5''), (''b'', ''1'', ''0'', ''2'')]))))
     = Inr ([], 0)
   \<and> map_sum id (map_prod (map sampleOf) id)
         (snd (scrape StringSchema
                 \<lparr>totalScrapes = 0, selectedPushStreamMetrics = pushStreamMetrics\<rparr>
                 (FetchOk (Doc (stringPayload ''2'' [])))))
     = Inr ([(''nginx_push_stream_subscribers_total'', [''all''], 0)], 1)
   \<and> map_sum id (map_prod (map sampleOf) id)
         (snd (scrape NumberSchema
                 \<lparr>totalScrapes = 0, selectedPushStreamMetrics = pushStreamMetrics\<rparr>
                 (FetchOk (Doc (numberPayload 2 [])))))
     = Inr ([(''nginx_push_stream_channels'', [''all''], 2),
             (''nginx_push_stream_subscribers_total'', [''all''], 0)], 1)"
  by (simp add: scrape_eval saveError_def pushStreamMetrics_def newPushStreamMetrics_def
      nginxLabelNames_def sampleOf_def BuildFQName_def namespace_def float64_exact)

section \<open>The empty selection\<close>

text \<open>
  Claim C6. \<^verbatim>\<open>filterMetrics\<close> returns the empty map for the empty selection string,
  as the claim says. A scrape with that map whose response decodes does not succeed:
  line 213 finds no \<^verbatim>\<open>subscribers_total\<close> in the empty map and
  \<^verbatim>\<open>MustNewConstMetric\<close> panics on the \<^verbatim>\<open>nil\<close> descriptor, so \<^verbatim>\<open>Collect\<close>
  sends no liveness gauge either. Only a scrape that fails before line 172 (here, a
  failed fetch) sends no catalog sample and the liveness gauge, with the value 0.
\<close>

theorem empty_selection_panics:
  "filterMetrics [] = []
   \<and> snd (scrape NumberSchema
          \<lparr>totalScrapes = 0, selectedPushStreamMetrics = filterMetrics []\<rparr>
          (FetchOk (Doc (numberPayload 0 [])))) = Inl (NilDescriptor, [])
   \<and> snd (Collect NumberSchema
          \<lparr>totalScrapes = 0, selectedPushStreamMetrics = filterMetrics []\<rparr>
          (FetchOk (Doc (numberPayload 0 [])))) = Inl (NilDescriptor, [])
   \<and> snd (Collect NumberSchema
          \<lparr>totalScrapes = 0, selectedPushStreamMetrics = filterMetrics []\<rparr>
          FetchError) =
       Inr [\<lparr>desc = nginxUp, mvalue = 0, labelValues = []\<rparr>,
            \<lparr>desc = totalScrapesDesc, mvalue = 1, labelValues = []\<rparr>]"
  by (simp add: scrape_eval filterMetrics_def Collect_def nginxUp_def float64_exact)

section \<open>Decode errors\<close>

lemma saveError_Some: "saveError (Some e) x = Some e"
  by (simp add: saveError_def)

lemma saveError_not_None: "\<exists>e. saveError err x = Some e"
  by (cases err) (simp_all add: saveError_def)

lemma storeValue_err: "snd (storeValue j old (Some e)) = Some e"
  by (cases "(j, old, Some e)" rule: storeValue.cases) (simp_all add: saveError_Some)

lemma storeString_err: "snd (storeString j old (Some e)) = Some e"
  by (cases "(j, old, Some e)" rule: storeString.cases) (simp_all add: saveError_Some)

lemma storeValue_rejects:
  assumes "int64Rejects j" and "isI64 old"
  shows "\<exists>e. snd (storeValue j old err) = Some e"
proof -
  from assms(2) obtain w where old: "old = I64 w" by (cases old) (simp_all add: isI64_def)
  from assms(1) show ?thesis
    by (cases j) (auto simp: old int64Rejects_def inInt64_def saveError_not_None)
qed

lemma storeValue_typed: "isI64 old \<Longrightarrow> isI64 (fst (storeValue j old err))"
  by (cases "(j, old, err)" rule: storeValue.cases) (simp_all add: isI64_def)

lemma channelMember_err: "snd (channelMember (k, j) (c, Some e)) = Some e"
  by (cases "findField channelTags k")
     (simp_all add: channelMember_def case_prod_beta storeValue_err storeString_err)

lemma channelMember_typed:
  "intTyped c \<Longrightarrow> intTyped (fst (channelMember (k, j) (c, err)))"
  by (cases "findField channelTags k")
     (simp_all add: channelMember_def case_prod_beta intTyped_def storeValue_typed)

lemma channelMember_rejects:
  assumes "intTyped c" and "findField channelTags k = Some f" and "f \<noteq> ''channel''"
    and "int64Rejects j"
  shows "\<exists>e. snd (channelMember (k, j) (c, err)) = Some e"
  using assms
  by (simp add: channelMember_def case_prod_beta intTyped_def storeValue_rejects)

lemma fold_channelMember_err: "snd (fold channelMember ms (c, Some e)) = Some e"
proof (induction ms arbitrary: c)
  case Nil
  then show ?case by simp
next
  case (Cons m ms)
  obtain k j where m: "m = (k, j)" by (cases m)
  obtain c' where "channelMember (k, j) (c, Some e) = (c', Some e)"
    using channelMember_err [of k j c e] by (cases "channelMember (k, j) (c, Some e)") simp
  with Cons.IH [of c'] show ?case by (simp add: m)
qed

lemma fold_channelMember_typed:
  "intTyped c \<Longrightarrow> intTyped (fst (fold channelMember ms (c, err)))"
proof (induction ms arbitrary: c err)
  case Nil
  then show ?case by simp
next
  case (Cons m ms)
  obtain k j where m: "m = (k, j)" by (cases m)
  obtain c' err' where s: "channelMember (k, j) (c, err) = (c', err')"
    by (cases "channelMember (k, j) (c, err)")
  with channelMember_typed [OF Cons.prems, of k j err] have "intTyped c'" by simp
  from Cons.IH [OF this, of err'] show ?case by (simp add: m s)
qed

lemma fold_channelMember_rejects:
  assumes "intTyped c"
    and "list_ex (\<lambda>(k, v). case findField channelTags k of
                               None \<Rightarrow> False
                             | Some f \<Rightarrow> f \<noteq> ''channel'' \<and> int64Rejects v) ms"
  shows "\<exists>e. snd (fold channelMember ms (c, err)) = Some e"
  using assms
proof (induction ms arbitrary: c err)
  case Nil
  then show ?case by simp
next
  case (Cons m ms)
  obtain k j where m: "m = (k, j)" by (cases m)
  obtain c' err' where s: "channelMember (k, j) (c, err) = (c', err')"
    by (cases "channelMember (k, j) (c, err)")
  with channelMember_typed [OF Cons.prems(1), of k j err] have t: "intTyped c'" by simp
  show ?case
  proof (cases "case findField channelTags k of
                  None \<Rightarrow> False | Some f \<Rightarrow> f \<noteq> ''channel'' \<and> int64Rejects j")
    case True
    then obtain f where "findField channelTags k = Some f" "f \<noteq> ''channel''" "int64Rejects j"
      by (auto split: option.splits)
    from channelMember_rejects [OF Cons.prems(1) this, of err] s
    obtain e where "err' = Some e" by auto
    then show ?thesis by (simp add: m s fold_channelMember_err)
  next
    case False
    with Cons.prems(2) m have "list_ex (\<lambda>(k, v). case findField channelTags k of
                               None \<Rightarrow> False
                             | Some f \<Rightarrow> f \<noteq> ''channel'' \<and> int64Rejects v) ms"
      by simp
    from Cons.IH [OF t this, of err'] show ?thesis by (simp add: m s)
  qed
qed

lemma decodeSlot_err: "snd (decodeSlot sch j slot (Some e)) = Some e"
  by (cases j)
     (simp_all add: decodeSlot_def Let_def case_prod_beta fold_channelMember_err saveError_Some)

lemma slotTyped_zero: "intTyped (case slot of None \<Rightarrow> zeroChannel NumberSchema | Some c \<Rightarrow> c)"
  if "slotTyped slot"
  using that
  by (cases slot) (simp_all add: slotTyped_def intTyped_def zeroChannel_def zeroValue_def isI64_def)

lemma decodeSlot_typed:
  assumes "slotTyped slot"
  shows "slotTyped (fst (decodeSlot NumberSchema j slot err))"
  using slotTyped_zero [OF assms]
  by (cases j)
     (simp_all add: decodeSlot_def Let_def case_prod_beta slotTyped_def fold_channelMember_typed)

lemma decodeSlot_rejects:
  assumes "slotTyped slot" and "channelRejects j"
  shows "\<exists>e. snd (decodeSlot NumberSchema j slot err) = Some e"
proof -
  from assms(2) obtain ms where j: "j = JObj ms"
    and ex: "list_ex (\<lambda>(k, v). case findField channelTags k of
                               None \<Rightarrow> False
                             | Some f \<Rightarrow> f \<noteq> ''channel'' \<and> int64Rejects v) ms"
    by (cases j) (simp_all add: channelRejects_def)
  from fold_channelMember_rejects [OF slotTyped_zero [OF assms(1)] ex, of err] show ?thesis
    by (simp add: j decodeSlot_def Let_def case_prod_beta)
qed

lemma decodeElems_err: "snd (decodeElems sch js i backing (Some e)) = Some e"
proof (induction js arbitrary: i backing)
  case Nil
  then show ?case by simp
next
  case (Cons j js)
  let ?slot = "if i < length backing then backing ! i else None"
  obtain s where "decodeSlot sch j ?slot (Some e) = (s, Some e)"
    using decodeSlot_err [of sch j ?slot e] by (cases "decodeSlot sch j ?slot (Some e)") simp
  with Cons.IH show ?case by simp
qed

lemma decodeElems_typed:
  assumes "list_all slotTyped backing"
  shows "list_all slotTyped (fst (decodeElems NumberSchema js i backing err))"
  using assms
proof (induction js arbitrary: i backing err)
  case Nil
  then show ?case by simp
next
  case (Cons j js)
  let ?slot = "if i < length backing then backing ! i else None"
  obtain s err' where d: "decodeSlot NumberSchema j ?slot err = (s, err')"
    by (cases "decodeSlot NumberSchema j ?slot err")
  from Cons.prems have "slotTyped ?slot" by (simp add: list_all_length slotTyped_def)
  from decodeSlot_typed [OF this, of j err] d have s: "slotTyped s" by simp
  with Cons.prems
  have "list_all slotTyped (if i < length backing then backing[i := s] else backing @ [s])"
    by (auto simp: list_all_iff dest: set_update_subset_insert [THEN subsetD])
  from Cons.IH [OF this] show ?case by (simp add: d)
qed

lemma decodeElems_rejects:
  assumes "list_all slotTyped backing" and "list_ex channelRejects js"
  shows "\<exists>e. snd (decodeElems NumberSchema js i backing err) = Some e"
  using assms
proof (induction js arbitrary: i backing err)
  case Nil
  then show ?case by simp
next
  case (Cons j js)
  let ?slot = "if i < length backing then backing ! i else None"
  obtain s err' where d: "decodeSlot NumberSchema j ?slot err = (s, err')"
    by (cases "decodeSlot NumberSchema j ?slot err")
  from Cons.prems(1) have st: "slotTyped ?slot" by (simp add: list_all_length slotTyped_def)
  from decodeSlot_typed [OF st, of j err] d have s: "slotTyped s" by simp
  with Cons.prems(1)
  have b: "list_all slotTyped (if i < length backing then backing[i := s] else backing @ [s])"
    by (auto simp: list_all_iff dest: set_update_subset_insert [THEN subsetD])
  show ?case
  proof (cases "channelRejects j")
    case True
    from decodeSlot_rejects [OF st True, of err] d obtain e where "err' = Some e" by auto
    then show ?thesis by (simp add: d decodeElems_err)
  next
    case False
    with Cons.prems(2) have "list_ex channelRejects js" by simp
    from Cons.IH [OF b this] show ?thesis by (simp add: d)
  qed
qed

lemma pushStreamMember_err:
  "snd (snd (pushStreamMember sch (k, j) (ps, backing, Some e))) = Some e"
proof (cases "findField pushStreamTags k")
  case None
  then show ?thesis by (simp add: pushStreamMember_def)
next
  case (Some f)
  show ?thesis
  proof (cases "f = ''channels''")
    case True
    with Some show ?thesis
      by (simp add: pushStreamMember_def case_prod_beta storeValue_err)
  next
    case False
    with Some show ?thesis
      by (cases j)
         (simp_all add: pushStreamMember_def case_prod_beta decodeElems_err saveError_Some)
  qed
qed

lemma pushStreamMember_typed:
  assumes "isI64 (Channels ps)" and "list_all slotTyped backing"
  shows "isI64 (Channels (fst (pushStreamMember NumberSchema (k, j) (ps, backing, err))))
         \<and> list_all slotTyped (fst (snd (pushStreamMember NumberSchema (k, j) (ps, backing, err))))"
proof (cases "findField pushStreamTags k")
  case None
  with assms show ?thesis by (simp add: pushStreamMember_def)
next
  case (Some f)
  show ?thesis
  proof (cases "f = ''channels''")
    case True
    with Some assms show ?thesis
      by (simp add: pushStreamMember_def case_prod_beta storeValue_typed)
  next
    case False
    with Some assms show ?thesis
      by (cases j)
         (simp_all add: pushStreamMember_def case_prod_beta decodeElems_typed)
  qed
qed

lemma pushStreamMember_rejects:
  assumes "isI64 (Channels ps)" and "list_all slotTyped backing"
    and "case findField pushStreamTags k of
           None \<Rightarrow> False
         | Some f \<Rightarrow>
             if f = ''channels'' then int64Rejects j
             else (case j of JArr js \<Rightarrow> list_ex channelRejects js | _ \<Rightarrow> False)"
  shows "\<exists>e. snd (snd (pushStreamMember NumberSchema (k, j) (ps, backing, err))) = Some e"
proof -
  from assms(3) obtain f where f: "findField pushStreamTags k = Some f"
    by (cases "findField pushStreamTags k") simp_all
  show ?thesis
  proof (cases "f = ''channels''")
    case True
    with assms(3) f have "int64Rejects j" by simp
    from storeValue_rejects [OF this assms(1), of err] True f show ?thesis
      by (simp add: pushStreamMember_def case_prod_beta)
  next
    case False
    with assms(3) f obtain js where j: "j = JArr js" and ex: "list_ex channelRejects js"
      by (cases j) simp_all
    from ex have "js \<noteq> []" by auto
    with decodeElems_rejects [OF assms(2) ex, of 0 err] False f j show ?thesis
      by (simp add: pushStreamMember_def case_prod_beta)
  qed
qed

lemma fold_pushStreamMember_err:
  "snd (snd (fold (pushStreamMember sch) ms (ps, backing, Some e))) = Some e"
proof (induction ms arbitrary: ps backing)
  case Nil
  then show ?case by simp
next
  case (Cons m ms)
  obtain k j where m: "m = (k, j)" by (cases m)
  obtain ps' backing' where "pushStreamMember sch (k, j) (ps, backing, Some e) = (ps', backing', Some e)"
    using pushStreamMember_err [of sch k j ps backing e]
    by (cases "pushStreamMember sch (k, j) (ps, backing, Some e)") auto
  with Cons.IH [of ps' backing'] show ?case by (simp add: m)
qed

lemma fold_pushStreamMember_rejects:
  assumes "isI64 (Channels ps)" and "list_all slotTyped backing" and "payloadRejects ms"
  shows "\<exists>e. snd (snd (fold (pushStreamMember NumberSchema) ms (ps, backing, err))) = Some e"
  using assms
proof (induction ms arbitrary: ps backing err)
  case Nil
  then show ?case by (simp add: payloadRejects_def)
next
  case (Cons m ms)
  obtain k j where m: "m = (k, j)" by (cases m)
  obtain ps' backing' err' where
    s: "pushStreamMember NumberSchema (k, j) (ps, backing, err) = (ps', backing', err')"
    by (cases "pushStreamMember NumberSchema (k, j) (ps, backing, err)") auto
  from pushStreamMember_typed [OF Cons.prems(1,2), of k j err] s
  have t: "isI64 (Channels ps')" "list_all slotTyped backing'" by simp_all
  let ?bad = "case findField pushStreamTags k of
           None \<Rightarrow> False
         | Some f \<Rightarrow>
             if f = ''channels'' then int64Rejects j
             else (case j of JArr js \<Rightarrow> list_ex channelRejects js | _ \<Rightarrow> False)"
  show ?case
  proof (cases ?bad)
    case True
    from pushStreamMember_rejects [OF Cons.prems(1,2) True, of err] s
    obtain e where "err' = Some e" by auto
    then show ?thesis by (simp add: m s fold_pushStreamMember_err)
  next
    case False
    with Cons.prems(3) m have "payloadRejects ms" by (simp add: payloadRejects_def)
    from Cons.IH [OF t this, of err'] show ?thesis by (simp add: m s)
  qed
qed

lemma Decode_rejects:
  assumes "payloadRejects ms"
  shows "\<exists>e. snd (Decode NumberSchema (Doc (JObj ms))) = Some e"
proof -
  have "isI64 (Channels (NewPushStream NumberSchema))"
    by (simp add: NewPushStream_def zeroValue_def isI64_def)
  from fold_pushStreamMember_rejects [OF this _ assms, of "[]" None] show ?thesis
    by (simp add: Decode_def case_prod_beta)
qed

lemma scrapeDecoded_error: "scrapeDecoded sel (ps, Some err) = Inr ([], 0)"
  by (simp add: scrapeDecoded_def)

text \<open>
  Claim C5 says that every non-numeric value in an integer-typed position of a
  number-form response makes the scrape fail. \<^verbatim>\<open>null\<close> is such a value, and the decoder
  skips it: the response with \<^verbatim>\<open>null\<close> for \<^verbatim>\<open>channels\<close> decodes without error, the
  field keeps the value 0, and the scrape returns 1 with a \<^verbatim>\<open>channels\<close> sample
  of 0.
\<close>

theorem null_count_accepted_counterexample:
  "map_sum id (map_prod (map sampleOf) id)
     (snd (scrape NumberSchema
             \<lparr>totalScrapes = 0, selectedPushStreamMetrics = pushStreamMetrics\<rparr>
             (FetchOk (Doc (JObj [(''channels'', JNull), (''infos'', JArr [])])))))
   = Inr ([(''nginx_push_stream_channels'', [''all''], 0),
           (''nginx_push_stream_subscribers_total'', [''all''], 0)], 1)"
  by (simp add: scrape_eval pushStreamMetrics_def newPushStreamMetrics_def nginxLabelNames_def
      sampleOf_def BuildFQName_def namespace_def float64_exact)

text \<open>
  Claim C5, amended. For the \<^verbatim>\<open>int64\<close> version of the package: when the response
  does not scan as a JSON value, or is an object with, in a count position (the member
  \<^verbatim>\<open>channels\<close>, or a count member of an object in the array \<^verbatim>\<open>infos\<close>), a value
  other than \<^verbatim>\<open>null\<close> that is not an integer literal within \<^verbatim>\<open>int64\<close>, then the
  decoder returns an error, the scrape sends no sample and returns 0, the counter has
  been incremented once, and \<^verbatim>\<open>Collect\<close> sends the liveness gauge with the value 0
  and the counter.
\<close>

theorem scrape_decode_error:
  assumes "b = Malformed \<or> (\<exists>ms. b = Doc (JObj ms) \<and> payloadRejects ms)"
  shows "(\<exists>err. snd (Decode NumberSchema b) = Some err)
    \<and> scrape NumberSchema e (FetchOk b) =
        (e\<lparr>totalScrapes := totalScrapes e + 1\<rparr>, Inr ([], 0))
    \<and> Collect NumberSchema e (FetchOk b) =
        (e\<lparr>totalScrapes := totalScrapes e + 1\<rparr>,
         Inr [\<lparr>desc = nginxUp, mvalue = 0, labelValues = []\<rparr>,
              \<lparr>desc = totalScrapesDesc, mvalue = float64 (int (totalScrapes e + 1)),
               labelValues = []\<rparr>])"
proof -
  from assms have "\<exists>err. snd (Decode NumberSchema b) = Some err"
  proof
    assume "b = Malformed"
    then show ?thesis by (simp add: Decode_def)
  next
    assume "\<exists>ms. b = Doc (JObj ms) \<and> payloadRejects ms"
    then show ?thesis using Decode_rejects by blast
  qed
  then obtain ps err where d: "Decode NumberSchema b = (ps, Some err)"
    by (cases "Decode NumberSchema b") auto
  have s: "scrape NumberSchema e (FetchOk b) =
        (e\<lparr>totalScrapes := totalScrapes e + 1\<rparr>, Inr ([], 0))"
    by (simp add: scrape_def d scrapeDecoded_error Let_def)
  show ?thesis
    by (simp add: d s Collect_def MustNewConstMetric_def nginxUp_def)
qed

theorem scrape_decode_error_witness:
  "payloadRejects [(''channels'', JStr ''not-a-number''), (''infos'', JArr [])]
   \<and> snd (Decode NumberSchema
            (Doc (JObj [(''channels'', JStr ''not-a-number''), (''infos'', JArr [])])))
       = Some UnmarshalTypeError
   \<and> scrape NumberSchema
        \<lparr>totalScrapes = 0, selectedPushStreamMetrics = pushStreamMetrics\<rparr>
        (FetchOk (Doc (JObj [(''channels'', JStr ''not-a-number''), (''infos'', JArr [])]))) =
       (\<lparr>totalScrapes = 1, selectedPushStreamMetrics = pushStreamMetrics\<rparr>, Inr ([], 0))
   \<and> Collect NumberSchema
        \<lparr>totalScrapes = 0, selectedPushStreamMetrics = pushStreamMetrics\<rparr>
        (FetchOk (Doc (JObj [(''channels'', JStr ''not-a-number''), (''infos'', JArr [])]))) =
       (\<lparr>totalScrapes = 1, selectedPushStreamMetrics = pushStreamMetrics\<rparr>,
        Inr [\<lparr>desc = nginxUp, mvalue = 0, labelValues = []\<rparr>,
             \<lparr>desc = totalScrapesDesc, mvalue = 1, labelValues = []\<rparr>])"
proof -
  let ?ms = "[(''channels'', JStr ''not-a-number''), (''infos'', JArr [])]"
  let ?e = "\<lparr>totalScrapes = 0, selectedPushStreamMetrics = pushStreamMetrics\<rparr>"
  have r: "payloadRejects ?ms"
    by (simp add: payloadRejects_def findField_def pushStreamTags_def int64Rejects_def)
  then have h: "Doc (JObj ?ms) = Malformed \<or> (\<exists>ms. Doc (JObj ?ms) = Doc (JObj ms) \<and> payloadRejects ms)"
    by blast
  have d: "snd (Decode NumberSchema (Doc (JObj ?ms))) = Some UnmarshalTypeError"
    by (simp add: Decode_def pushStreamMember_def findField_def pushStreamTags_def
        NewPushStream_def zeroValue_def saveError_def)
  from scrape_decode_error [OF h, of ?e] r d show ?thesis
    by (simp add: float64_exact)
qed

section \<open>The document \<^verbatim>\<open>null\<close>\<close>

text \<open>
  Whatever the decoder returns, it returns an error, a record without error, or, for
  the document \<^verbatim>\<open>null\<close> alone, the \<^verbatim>\<open>nil\<close> pointer without error. After an error
  \<^verbatim>\<open>scrape\<close> returns 0 without reading the record the decoder left
  (\<open>scrapeDecoded_error\<close>).
\<close>

lemma Decode_cases:
  "(\<exists>ps err. Decode sch b = (ps, Some err))
   \<or> (\<exists>ps. Decode sch b = (Some ps, None))
   \<or> (b = Doc JNull \<and> Decode sch b = (None, None))"
proof (cases b)
  case Malformed
  then show ?thesis by (simp add: Decode_def)
next
  case (Doc j)
  show ?thesis
  proof (cases j)
    case (JObj ms)
    obtain ps backing err where
      "fold (pushStreamMember sch) ms (NewPushStream sch, [], None) = (ps, backing, err)"
      by (cases "fold (pushStreamMember sch) ms (NewPushStream sch, [], None)") auto
    with Doc JObj show ?thesis by (cases err) (simp_all add: Decode_def)
  qed (simp_all add: Doc Decode_def)
qed

text \<open>
  Claim C9 (decoding gives a complete record or an error) does not hold of the code at
  the response \<^verbatim>\<open>null\<close>. \<^verbatim>\<open>Decode(&ps)\<close> is given the address of the pointer, so
  for \<^verbatim>\<open>null\<close> it sets the pointer to \<^verbatim>\<open>nil\<close> and returns no error: there is neither
  a record nor an error. The check of line 167 passes, and the walk panics on the zero
  \<^verbatim>\<open>reflect.Value\<close> (with an empty selection, line 213 panics on the \<^verbatim>\<open>nil\<close>
  descriptor).
\<close>

theorem null_document_panics:
  "Decode NumberSchema (Doc JNull) = (None, None)
   \<and> Decode StringSchema (Doc JNull) = (None, None)
   \<and> snd (scrape NumberSchema
            \<lparr>totalScrapes = 0, selectedPushStreamMetrics = pushStreamMetrics\<rparr>
            (FetchOk (Doc JNull))) = Inl (NumFieldOfZeroValue, [])
   \<and> snd (Collect NumberSchema
            \<lparr>totalScrapes = 0, selectedPushStreamMetrics = pushStreamMetrics\<rparr>
            (FetchOk (Doc JNull))) = Inl (NumFieldOfZeroValue, [])
   \<and> snd (scrape NumberSchema
            \<lparr>totalScrapes = 0, selectedPushStreamMetrics = []\<rparr>
            (FetchOk (Doc JNull))) = Inl (NilDescriptor, [])"
  by (simp add: scrape_eval Collect_def pushStreamMetrics_def)

end
